theory Spec2Isabelle
  imports Main "HOL-Library.Sublist" "HOL-Library.Product_Lexorder"
begin

section \<open>JavaScript values\<close>

text \<open>
  A JavaScript string is a sequence of UTF-16 code units. A code unit is modelled as a
  natural number, a string as the list of its code units. \<open>js\<close> turns an ASCII literal
  into such a string.
\<close>

type_synonym jschar = nat
type_synonym jsstring = "jschar list"

text \<open>
  The numbers that \<open>parseInt\<close> returns are doubles: an integer that a double holds,
  an infinity, or \<open>NaN\<close>. JSON has neither \<open>NaN\<close> nor the infinities and writes them
  as \<open>null\<close>: a number read from the store is a finite number or \<open>null\<close> (\<open>None\<close>).
\<close>

datatype number = Finite int | PosInfinity | NegInfinity | NaN

type_synonym jsnum = "int option"

definition finite_of :: "number \<Rightarrow> jsnum" where
  "finite_of x = (case x of Finite n \<Rightarrow> Some n | _ \<Rightarrow> None)"

definition negate :: "number \<Rightarrow> number" where
  "negate x =
     (case x of Finite n \<Rightarrow> Finite (- n) | PosInfinity \<Rightarrow> NegInfinity
      | NegInfinity \<Rightarrow> PosInfinity | NaN \<Rightarrow> NaN)"

text \<open>
  The double nearest to a natural number, ties to the even significand: exact below
  \<open>2^53\<close>; above, the 53 leading bits are kept and rounded, and a result of \<open>2^1024\<close> or
  more is \<open>Infinity\<close>.
\<close>

fun bit_length :: "nat \<Rightarrow> nat" where
  "bit_length n = (if n = 0 then 0 else Suc (bit_length (n div 2)))"

declare bit_length.simps [simp del]

definition to_double :: "nat \<Rightarrow> number" where
  "to_double n =
     (if n < 2 ^ 53 then Finite (int n)
      else (let e = bit_length n - 53;
                q = n div 2 ^ e;
                r = n mod 2 ^ e;
                q' = (if 2 ^ e < 2 * r \<or> (2 * r = 2 ^ e \<and> odd q) then q + 1 else q)
            in if 2 ^ 1024 \<le> q' * 2 ^ e then PosInfinity else Finite (int (q' * 2 ^ e))))"

definition js :: "string \<Rightarrow> jsstring" where
  "js s = map of_char s"

text \<open>
  The line terminators and the white space of ECMAScript: what \<open>\s\<close> matches, what
  \<open>trim\<close> strips, and what \<open>.\<close> (without the \<open>s\<close> flag) does not match.
\<close>

definition is_line_terminator :: "jschar \<Rightarrow> bool" where
  "is_line_terminator c \<longleftrightarrow> c = 10 \<or> c = 13 \<or> c = 8232 \<or> c = 8233"

definition is_ws :: "jschar \<Rightarrow> bool" where
  "is_ws c \<longleftrightarrow>
     c = 9 \<or> c = 11 \<or> c = 12 \<or> c = 32 \<or> c = 160 \<or> c = 5760 \<or> (8192 \<le> c \<and> c \<le> 8202)
     \<or> c = 8239 \<or> c = 8287 \<or> c = 12288 \<or> c = 65279 \<or> is_line_terminator c"

definition is_digit :: "jschar \<Rightarrow> bool" where
  "is_digit c \<longleftrightarrow> 48 \<le> c \<and> c \<le> 57"

definition trim :: "jsstring \<Rightarrow> jsstring" where
  "trim s = rev (dropWhile is_ws (rev (dropWhile is_ws s)))"

text \<open>\<open>s.split(c)\<close> for a separator of one code unit: never an empty array.\<close>

fun split :: "jschar \<Rightarrow> jsstring \<Rightarrow> jsstring list" where
  "split c [] = [[]]"
| "split c (x # xs) =
     (if x = c then [] # split c xs
      else (case split c xs of [] \<Rightarrow> [[x]] | p # ps \<Rightarrow> (x # p) # ps))"

text \<open>\<open>xs.join(sep)\<close> on an array of strings.\<close>

fun join :: "jsstring \<Rightarrow> jsstring list \<Rightarrow> jsstring" where
  "join sep [] = []"
| "join sep [x] = x"
| "join sep (x # y # ys) = x @ sep @ join sep (y # ys)"

definition startsWith :: "jsstring \<Rightarrow> jsstring \<Rightarrow> bool" where
  "startsWith s p = prefix p s"

text \<open>
  \<open>parseInt(s)\<close> with no radix: leading white space is skipped, one sign is read, a
  \<open>0x\<close> or \<open>0X\<close> prefix selects radix 16, the longest run of digits of the radix is
  read, and no digit at all gives \<open>NaN\<close>. The result is the double nearest to the
  value of the digits (ECMAScript lets an implementation read the decimal digits after
  the twentieth as zeros; V8 reads them all).
\<close>

definition digit_val :: "jschar \<Rightarrow> nat" where
  "digit_val c =
     (if 48 \<le> c \<and> c \<le> 57 then c - 48
      else if 97 \<le> c \<and> c \<le> 122 then c - 87
      else if 65 \<le> c \<and> c \<le> 90 then c - 55
      else 36)"

definition radix_digit :: "nat \<Rightarrow> jschar \<Rightarrow> bool" where
  "radix_digit r c \<longleftrightarrow> digit_val c < r"

fun digits_value :: "nat \<Rightarrow> nat \<Rightarrow> jsstring \<Rightarrow> nat" where
  "digits_value r acc [] = acc"
| "digits_value r acc (c # cs) = digits_value r (acc * r + digit_val c) cs"

definition parseInt :: "jsstring \<Rightarrow> number" where
  "parseInt s =
     (let s1 = dropWhile is_ws s;
          neg = (case s1 of [] \<Rightarrow> False | c # _ \<Rightarrow> c = 45);
          s2 = (case s1 of [] \<Rightarrow> [] | c # r \<Rightarrow> if c = 45 \<or> c = 43 then r else s1);
          hex = (case s2 of a # b # _ \<Rightarrow> a = 48 \<and> (b = 120 \<or> b = 88) | _ \<Rightarrow> False);
          radix = (if hex then 16 else 10);
          s3 = (if hex then drop 2 s2 else s2);
          z = takeWhile (radix_digit radix) s3
      in if z = [] then NaN
         else if neg then negate (to_double (digits_value radix 0 z))
         else to_double (digits_value radix 0 z))"

section \<open>Tasks and the task parser\<close>

text \<open>
  An element of \<open>tasksArray\<close>, \<open>{id, text, done}\<close>, as the parser makes it, and an
  element of the \<open>tasks\<close> JSON array as the store holds it. \<open>JSON.stringify\<close> takes
  the first to the second.
\<close>

record new_task =
  new_id :: number
  new_text :: jsstring
  new_done :: bool

record task =
  task_id :: jsnum
  task_text :: jsstring
  task_done :: bool

definition stringify :: "new_task list \<Rightarrow> task list" where
  "stringify ts =
     map (\<lambda>t. \<lparr>task_id = finite_of (new_id t), task_text = new_text t, task_done = new_done t\<rparr>) ts"

text \<open>
  \<open>cleanLine.match(/^(\d+)[\.\)\:\s]\s*(.*)/)\<close>, giving the two groups. \<open>\d+\<close> is
  greedy and a separator is never a digit, so group 1 is the whole leading run of
  digits; \<open>\s*\<close> takes the white space that follows the separator; \<open>.*\<close> stops at the
  first line terminator.
\<close>

definition is_separator :: "jschar \<Rightarrow> bool" where
  "is_separator c \<longleftrightarrow> c = 46 \<or> c = 41 \<or> c = 58 \<or> is_ws c"

definition match_task :: "jsstring \<Rightarrow> (jsstring \<times> jsstring) option" where
  "match_task cleanLine =
     (let ds = takeWhile is_digit cleanLine
      in if ds = [] then None
         else (case dropWhile is_digit cleanLine of
                 [] \<Rightarrow> None
               | c # r \<Rightarrow>
                   if is_separator c
                   then Some (ds, takeWhile (\<lambda>x. \<not> is_line_terminator x) (dropWhile is_ws r))
                   else None))"

text \<open>The body of \<open>lines.forEach\<close>: the task a line pushes, if it pushes one.\<close>

definition parse_line :: "jsstring \<Rightarrow> new_task option" where
  "parse_line line =
     (let cleanLine = trim (filter (\<lambda>c. c \<noteq> 42) line)
      in case match_task cleanLine of
           None \<Rightarrow> None
         | Some (g1, g2) \<Rightarrow>
             Some \<lparr>new_id = parseInt g1, new_text = trim g2, new_done = False\<rparr>)"

definition parseTasks :: "jsstring \<Rightarrow> new_task list" where
  "parseTasks txt = List.map_filter parse_line (split 10 txt)"

section \<open>The store, the transport and the generation provider\<close>

text \<open>
  Modelled from the spec: the declarations of the three tables are not in the sources.
  The rows have the columns that the queries name and the store schema of the
  specification lists; \<open>priority\<close> is an integer, \<open>deadline\<close> and \<open>tasks\<close> may be
  null. A calendar date (the \<open>activity_date\<close> column, the string \<open>YYYY-MM-DD\<close> of the
  carry-over lookup) is the number of its day, counted from 1970-01-01.
\<close>

record user_row =
  user_id :: int
  chat_id :: int

record goal_row =
  goal_id :: int
  goal_user :: int
  description :: jsstring
  deadline :: "jsstring option"
  priority :: int

record activity_row =
  act_user :: int
  activity_date :: int
  content :: jsstring
  tasks :: "task list option"

text \<open>
  What the bot sends. The fixed texts are constructors; a button carries the ordinal
  that its label and its callback data \<open>check_task_<id>\<close> are made of, where that is
  a finite number, and whether it shows the checked icon. An edited plan carries the tasks its lines are rendered
  from and the closing line that is kept.
\<close>

datatype notice =
    Checking
  | Generating
  | NoGoals
  | Snag
  | SnagLater
  | GoalDeleted
  | PleaseStart
  | InvalidNumber nat
  | DeletedGoal jsstring
  | ErrorDeleting
  | DeleteTip
  | NoGoalsSet
  | ErrorFetching

datatype button = Button jsnum bool

datatype outmsg =
    Notice int notice
  | Plan int bool jsstring "button list list"
  | PlanText int jsstring
  | GoalsList int "goal_row list"
  | EditMessageText int int "task list" "jsstring option" "button list list"
  | DeleteMessage int int
  | AnswerCallback int

datatype jserror = StoreError | ProviderError | TransportError | TypeError

record world =
  users :: "user_row list"
  goals :: "goal_row list"
  daily_activities :: "activity_row list"
  outbox :: "outmsg list"
  gen_calls :: "jsstring list"
  console :: "jserror list"

text \<open>
  What one invocation does not control: the clock (seconds since the epoch), the offsets
  from UTC (in seconds) of the host's and of the store's time zone, the answer of the
  generation provider, the store's cast of a text parameter to a goal id, and which of
  the awaited calls is rejected. A rejected query changes nothing; a rejected send
  delivers nothing.
\<close>

datatype site =
    Q_yesterday | Q_goals | Q_upsert | Send_plan
  | Q_user | Q_today | Q_update | Edit_message
  | Q_delete_goal | Delete_message | Send_deleted
  | Q_users | Q_goals_by_id | Q_delete_by_id | Q_mygoals

record env =
  now :: int
  host_offset :: int
  store_offset :: int
  generate :: "jsstring \<Rightarrow> jserror + jsstring"
  goal_id_of_text :: "jsstring \<Rightarrow> int option"
  fails :: "site \<Rightarrow> bool"

text \<open>
  An asynchronous function is a function of the world that returns the world it leaves
  and either the value it resolves to or the error it rejects with.
\<close>

type_synonym 'a io = "world \<Rightarrow> (jserror + 'a) \<times> world"

definition ret :: "'a \<Rightarrow> 'a io" where
  "ret x = (\<lambda>w. (Inr x, w))"

definition throw :: "jserror \<Rightarrow> 'a io" where
  "throw e = (\<lambda>w. (Inl e, w))"

definition andThen :: "'a io \<Rightarrow> ('a \<Rightarrow> 'b io) \<Rightarrow> 'b io" where
  "andThen m f = (\<lambda>w. case m w of (Inl e, w') \<Rightarrow> (Inl e, w') | (Inr x, w') \<Rightarrow> f x w')"

definition tryCatch :: "'a io \<Rightarrow> (jserror \<Rightarrow> 'a io) \<Rightarrow> 'a io" where
  "tryCatch m h = (\<lambda>w. case m w of (Inl e, w') \<Rightarrow> h e w' | (Inr x, w') \<Rightarrow> (Inr x, w'))"

text \<open>\<open>bot.sendMessage\<close> and \<open>bot.answerCallbackQuery\<close> that are not awaited.\<close>

definition send :: "outmsg \<Rightarrow> unit io" where
  "send m = (\<lambda>w. (Inr (), w\<lparr>outbox := outbox w @ [m]\<rparr>))"

text \<open>An awaited call of the transport.\<close>

definition awaitSend :: "env \<Rightarrow> site \<Rightarrow> outmsg \<Rightarrow> unit io" where
  "awaitSend e s m =
     (\<lambda>w. if fails e s then (Inl TransportError, w)
          else (Inr (), w\<lparr>outbox := outbox w @ [m]\<rparr>))"

definition console_error :: "jserror \<Rightarrow> unit io" where
  "console_error err = (\<lambda>w. (Inr (), w\<lparr>console := console w @ [err]\<rparr>))"

text \<open>\<open>await pool.query\<close>: a read, and a statement that writes.\<close>

definition select :: "env \<Rightarrow> site \<Rightarrow> (world \<Rightarrow> 'a) \<Rightarrow> 'a io" where
  "select e s rows = (\<lambda>w. if fails e s then (Inl StoreError, w) else (Inr (rows w), w))"

definition execute :: "env \<Rightarrow> site \<Rightarrow> (world \<Rightarrow> world) \<Rightarrow> unit io" where
  "execute e s stmt = (\<lambda>w. if fails e s then (Inl StoreError, w) else (Inr (), stmt w))"

text \<open>\<open>await model.generateContent(prompt)\<close>, then \<open>result.response.text()\<close>.\<close>

definition generateContent :: "env \<Rightarrow> jsstring \<Rightarrow> jsstring io" where
  "generateContent e prompt =
     (\<lambda>w. (generate e prompt, w\<lparr>gen_calls := gen_calls w @ [prompt]\<rparr>))"

subsection \<open>Dates\<close>

text \<open>
  \<open>new Date().toLocaleString("en-US", {timeZone: "Africa/Lagos"})\<close> is the wall clock
  of Lagos, one hour ahead of UTC all year. \<open>new Date(lagosTime)\<close> reads that wall clock
  as a time of the host's zone, \<open>setDate(getDate() - 1)\<close> goes back one day, and
  \<open>toISOString().split('T')[0]\<close> is the date of the result in UTC.
\<close>

definition lagosTime :: "env \<Rightarrow> int" where
  "lagosTime e = now e + 3600"

definition todayDate :: "env \<Rightarrow> int" where
  "todayDate e = lagosTime e - host_offset e"

definition yesterdayDate :: "env \<Rightarrow> int" where
  "yesterdayDate e = todayDate e - 86400"

definition yesterdayStr :: "env \<Rightarrow> int" where
  "yesterdayStr e = yesterdayDate e div 86400"

text \<open>\<open>CURRENT_DATE\<close>: the date of the store's session time zone.\<close>

definition CURRENT_DATE :: "env \<Rightarrow> int" where
  "CURRENT_DATE e = (now e + store_offset e) div 86400"

text \<open>The calendar date of Lagos, which the specification anchors both days to.\<close>

definition lagos_date :: "int \<Rightarrow> int" where
  "lagos_date t = (t + 3600) div 86400"

section \<open>The plan prompt\<close>

text \<open>A deadline that is \<open>null\<close> or the empty string is falsy: the goal has no deadline.\<close>

definition goalLine :: "goal_row \<Rightarrow> jsstring" where
  "goalLine g =
     (case deadline g of
        None \<Rightarrow> js ''- '' @ description g
      | Some d \<Rightarrow>
          if d = [] then js ''- '' @ description g
          else js ''- '' @ description g @ js '' (Deadline: '' @ d @ js '')'')"

definition goalsText :: "goal_row list \<Rightarrow> jsstring" where
  "goalsText gs = join [10] (map goalLine gs)"

definition prompt_head :: jsstring where
  "prompt_head =
     js ''\<newline>'' @
     js ''            Context: The user has the following long-term goals:\<newline>''"

definition prompt_tail :: jsstring where
  "prompt_tail =
     js ''\<newline>'' @
     js ''            \<newline>'' @
     js ''            Instructions: Generate a strictly numbered daily to-do list for TODAY.\<newline>'' @
     js ''            - Create exactly ONE actionable task for EACH long-term goal.\<newline>'' @
     js ''            - Format output exactly like:\<newline>'' @
     js ''              1. Task text here\<newline>'' @
     js ''              2. Task text here\<newline>'' @
     js ''            - Do not use markdown bolding on the numbers.\<newline>'' @
     js ''            - Add a short motivational quote at the very end.\<newline>'' @
     js ''        ''"

definition carry_over_instruction :: jsstring where
  "carry_over_instruction =
     js ''\<newline>IMPORTANT: Include these unfinished tasks from yesterday first:\<newline>''"

text \<open>The prompt before the carry-over is appended, and the prompt that is sent.\<close>

definition basePrompt :: "goal_row list \<Rightarrow> jsstring" where
  "basePrompt gs = prompt_head @ goalsText gs @ prompt_tail"

definition buildPrompt :: "goal_row list \<Rightarrow> jsstring list \<Rightarrow> jsstring" where
  "buildPrompt gs unfinishedTasks =
     (if unfinishedTasks \<noteq> []
      then basePrompt gs @ carry_over_instruction @ join [10] unfinishedTasks
      else basePrompt gs)"

text \<open>The prompt of \<open>bot.js\<close>, which has no carry-over.\<close>

definition prompt_head_v1 :: jsstring where
  "prompt_head_v1 =
     js ''\<newline>'' @
     js ''        I have the following goals for this year:\<newline>'' @
     js ''        ''"

definition prompt_tail_v1 :: jsstring where
  "prompt_tail_v1 =
     js ''\<newline>'' @
     js ''\<newline>'' @
     js ''        Please generate a daily activity list for TODAY to help me move towards these goals.\<newline>'' @
     js ''        - Create exactly ONE actionable task for EACH goal.\<newline>'' @
     js ''        - Prioritize goals with closer deadlines (if mentioned).\<newline>'' @
     js ''        - Each task should be achievable in 30-60 minutes.\<newline>'' @
     js ''        - Be specific and actionable (not vague like \"work on X\" but \"complete Y for X\").\<newline>'' @
     js ''        - Format the output as a numbered list (1., 2., 3.).\<newline>'' @
     js ''        - Add a short motivational quote at the end.\<newline>'' @
     js ''        - Do not use markdown bolding (**) just plain text is fine.\<newline>'' @
     js ''        ''"

definition buildPrompt_v1 :: "goal_row list \<Rightarrow> jsstring" where
  "buildPrompt_v1 gs = prompt_head_v1 @ goalsText gs @ prompt_tail_v1"

section \<open>Queries\<close>

text \<open>\<open>WHERE user_id = $1 AND activity_date = $2\<close> on \<open>daily_activities\<close>.\<close>

definition activity_key :: "activity_row \<Rightarrow> int \<times> int" where
  "activity_key r = (act_user r, activity_date r)"

definition activities_of :: "int \<Rightarrow> int \<Rightarrow> world \<Rightarrow> activity_row list" where
  "activities_of userId d w = filter (\<lambda>r. activity_key r = (userId, d)) (daily_activities w)"

text \<open>\<open>SELECT tasks FROM daily_activities WHERE ...\<close>: the \<open>tasks\<close> of each row found.\<close>

definition select_tasks :: "int \<Rightarrow> int \<Rightarrow> world \<Rightarrow> task list option list" where
  "select_tasks userId d w = map tasks (activities_of userId d w)"

text \<open>\<open>SELECT ... FROM goals WHERE user_id = $1 ORDER BY priority DESC, id ASC\<close>.\<close>

definition by_priority_then_id :: "goal_row list \<Rightarrow> goal_row list" where
  "by_priority_then_id gs = sort_key (\<lambda>g. (- priority g, goal_id g)) gs"

definition select_goals :: "int \<Rightarrow> world \<Rightarrow> goal_row list" where
  "select_goals userId w = by_priority_then_id (filter (\<lambda>g. goal_user g = userId) (goals w))"

text \<open>\<open>SELECT id, description FROM goals WHERE user_id = $1 ORDER BY id ASC\<close>.\<close>

definition select_goals_by_id :: "int \<Rightarrow> world \<Rightarrow> goal_row list" where
  "select_goals_by_id userId w = sort_key goal_id (filter (\<lambda>g. goal_user g = userId) (goals w))"

text \<open>\<open>SELECT id FROM users WHERE chat_id = $1\<close>.\<close>

definition select_user :: "int \<Rightarrow> world \<Rightarrow> user_row list" where
  "select_user chatId w = filter (\<lambda>u. chat_id u = chatId) (users w)"

text \<open>
  \<open>INSERT INTO daily_activities (user_id, content, tasks, activity_date) VALUES ($1, $2,
  $3, CURRENT_DATE) ON CONFLICT (user_id, activity_date) DO UPDATE SET content =
  EXCLUDED.content, tasks = EXCLUDED.tasks\<close>.
\<close>

definition upsert_activity :: "int \<Rightarrow> int \<Rightarrow> jsstring \<Rightarrow> task list \<Rightarrow> world \<Rightarrow> world" where
  "upsert_activity userId d txt ts w =
     (if activities_of userId d w = []
      then w\<lparr>daily_activities := daily_activities w @
             [\<lparr>act_user = userId, activity_date = d, content = txt, tasks = Some ts\<rparr>]\<rparr>
      else w\<lparr>daily_activities :=
             map (\<lambda>r. if activity_key r = (userId, d) then r\<lparr>content := txt, tasks := Some ts\<rparr> else r)
               (daily_activities w)\<rparr>)"

text \<open>
  Modelled from the spec: the defaults of the columns are not in the sources; a row
  inserted without a date is keyed by the day of the write, and its \<open>tasks\<close> are null.
  The statement of \<open>bot.js\<close> is \<open>INSERT INTO daily_activities (user_id, content) VALUES
  ($1, $2) ON CONFLICT (user_id, activity_date) DO UPDATE SET content = $2\<close>.
\<close>

definition upsert_content :: "int \<Rightarrow> int \<Rightarrow> jsstring \<Rightarrow> world \<Rightarrow> world" where
  "upsert_content userId d txt w =
     (if activities_of userId d w = []
      then w\<lparr>daily_activities := daily_activities w @
             [\<lparr>act_user = userId, activity_date = d, content = txt, tasks = None\<rparr>]\<rparr>
      else w\<lparr>daily_activities :=
             map (\<lambda>r. if activity_key r = (userId, d) then r\<lparr>content := txt\<rparr> else r)
               (daily_activities w)\<rparr>)"

text \<open>\<open>UPDATE daily_activities SET tasks = $1 WHERE user_id = $2 AND activity_date = CURRENT_DATE\<close>.\<close>

definition update_tasks :: "int \<Rightarrow> int \<Rightarrow> task list \<Rightarrow> world \<Rightarrow> world" where
  "update_tasks userId d ts w =
     w\<lparr>daily_activities :=
         map (\<lambda>r. if activity_key r = (userId, d) then r\<lparr>tasks := Some ts\<rparr> else r)
           (daily_activities w)\<rparr>"

text \<open>\<open>DELETE FROM goals WHERE id = $1\<close>.\<close>

definition delete_goal :: "int \<Rightarrow> world \<Rightarrow> world" where
  "delete_goal gid w = w\<lparr>goals := filter (\<lambda>g. goal_id g \<noteq> gid) (goals w)\<rparr>"

text \<open>
  \<open>INSERT INTO goals (user_id, description, deadline) VALUES ($1, $2, $3)\<close> and
  \<open>INSERT INTO goals (user_id, description) VALUES ($1, $2)\<close>, the only statements of
  either file that write a row of \<open>goals\<close>; no statement updates one. Modelled from the
  spec: the id of the new row is generated by the store, and its \<open>priority\<close>, which
  neither statement names, is the default of the column, whatever that is.
\<close>

definition insert_goal :: "int \<Rightarrow> int \<Rightarrow> int \<Rightarrow> jsstring \<Rightarrow> jsstring option \<Rightarrow> world \<Rightarrow> world" where
  "insert_goal default_priority newId userId descr dl w =
     w\<lparr>goals := goals w @
        [\<lparr>goal_id = newId, goal_user = userId, description = descr, deadline = dl,
          priority = default_priority\<rparr>]\<rparr>"

text \<open>Every stored goal has the priority \<open>p\<close>.\<close>

definition default_priorities :: "int \<Rightarrow> world \<Rightarrow> bool" where
  "default_priorities p w \<longleftrightarrow> (\<forall>g \<in> set (goals w). priority g = p)"

section \<open>The plan orchestrator\<close>

text \<open>
  \<open>unfinishedTasks\<close>: empty unless the lookup found a row whose \<open>tasks\<close> are not null;
  then the texts of the tasks that are not done.
\<close>

definition unfinished_of :: "task list option list \<Rightarrow> jsstring list" where
  "unfinished_of rows =
     (case rows of
        [] \<Rightarrow> []
      | r # _ \<Rightarrow> (case r of None \<Rightarrow> [] | Some ts \<Rightarrow> map task_text (filter (\<lambda>t. \<not> task_done t) ts)))"

text \<open>The keyboard: a row is pushed when it holds five buttons, and the last one if not empty.\<close>

fun build_rows :: "button list \<Rightarrow> button list \<Rightarrow> button list list" where
  "build_rows row [] = (if row = [] then [] else [row])"
| "build_rows row (b # bs) =
     (if length (row @ [b]) = 5 then (row @ [b]) # build_rows [] bs
      else build_rows (row @ [b]) bs)"

definition plan_buttons :: "new_task list \<Rightarrow> button list list" where
  "plan_buttons ts = build_rows [] (map (\<lambda>t. Button (finite_of (new_id t)) False) ts)"

text \<open>The body of the \<open>try\<close> block of \<open>generateAndSendDailyPlan\<close> (the file with the carry-over).\<close>

definition generateAndSendDailyPlan_try :: "env \<Rightarrow> int \<Rightarrow> int \<Rightarrow> unit io" where
  "generateAndSendDailyPlan_try e chatId userId =
     andThen (send (Notice chatId Checking)) (\<lambda>_.
     andThen (select e Q_yesterday (select_tasks userId (yesterdayStr e))) (\<lambda>yesterdayRes.
     let unfinishedTasks = unfinished_of yesterdayRes in
     andThen (select e Q_goals (select_goals userId)) (\<lambda>gs.
     if gs = [] \<and> unfinishedTasks = [] then send (Notice chatId NoGoals)
     else
       andThen (generateContent e (buildPrompt gs unfinishedTasks)) (\<lambda>txt.
       let tasksArray = parseTasks txt in
       andThen (execute e Q_upsert
                  (upsert_activity userId (CURRENT_DATE e) txt (stringify tasksArray))) (\<lambda>_.
       awaitSend e Send_plan
         (Plan chatId (unfinishedTasks \<noteq> []) txt (plan_buttons tasksArray)))))))"

definition generateAndSendDailyPlan :: "env \<Rightarrow> int \<Rightarrow> int \<Rightarrow> unit io" where
  "generateAndSendDailyPlan e chatId userId =
     tryCatch (generateAndSendDailyPlan_try e chatId userId)
       (\<lambda>error. andThen (console_error error) (\<lambda>_. send (Notice chatId Snag)))"

text \<open>\<open>generateAndSendDailyPlan\<close> of \<open>bot.js\<close>: no carry-over, no task list.\<close>

definition generateAndSendDailyPlan_v1_try :: "env \<Rightarrow> int \<Rightarrow> int \<Rightarrow> unit io" where
  "generateAndSendDailyPlan_v1_try e chatId userId =
     andThen (select e Q_goals (select_goals userId)) (\<lambda>gs.
     if gs = [] then send (Notice chatId NoGoals)
     else
       andThen (send (Notice chatId Generating)) (\<lambda>_.
       andThen (generateContent e (buildPrompt_v1 gs)) (\<lambda>txt.
       andThen (execute e Q_upsert (upsert_content userId (CURRENT_DATE e) txt)) (\<lambda>_.
       send (PlanText chatId txt)))))"

definition generateAndSendDailyPlan_v1 :: "env \<Rightarrow> int \<Rightarrow> int \<Rightarrow> unit io" where
  "generateAndSendDailyPlan_v1 e chatId userId =
     tryCatch (generateAndSendDailyPlan_v1_try e chatId userId)
       (\<lambda>error. andThen (console_error error) (\<lambda>_. send (Notice chatId SnagLater)))"

section \<open>The daily scheduler\<close>

text \<open>
  The loop over the registered users. Each turn has its own environment, given by the
  user's id. A turn that rejected would end the loop.
\<close>

fun plans_for :: "(int \<Rightarrow> env) \<Rightarrow> user_row list \<Rightarrow> unit io" where
  "plans_for envs [] = ret ()"
| "plans_for envs (user # rest) =
     andThen (generateAndSendDailyPlan (envs (user_id user)) (chat_id user) (user_id user))
       (\<lambda>_. plans_for envs rest)"

definition daily_scheduler :: "env \<Rightarrow> (int \<Rightarrow> env) \<Rightarrow> unit io" where
  "daily_scheduler e envs = andThen (select e Q_users users) (\<lambda>rows. plans_for envs rows)"



section \<open>The button handler\<close>

text \<open>
  A callback query: its id, the chat and the id of the message the button is on, the text
  of that message, and the data of the button.
\<close>

record callback_query =
  query_id :: int
  query_chat :: int
  query_message_id :: int
  query_message_text :: jsstring
  query_data :: jsstring

text \<open>\<open>a === b\<close> on numbers: \<open>NaN\<close> is equal to nothing.\<close>

definition strict_eq :: "jsnum \<Rightarrow> jsnum \<Rightarrow> bool" where
  "strict_eq a b \<longleftrightarrow> (case a of None \<Rightarrow> False | Some x \<Rightarrow> b = Some x)"

text \<open>\<open>data.split('_')[2]\<close>, which is \<open>undefined\<close> when there are fewer than three parts.\<close>

definition third_part :: "jsstring \<Rightarrow> jsstring option" where
  "third_part d = (case drop 2 (split 95 d) of [] \<Rightarrow> None | s # _ \<Rightarrow> Some s)"

text \<open>
  \<open>parseInt(data.split('_')[2])\<close>; \<open>parseInt(undefined)\<close> is \<open>NaN\<close>. The number is only
  compared, by \<open>===\<close>, with ids read from the store, which are finite or \<open>null\<close>; an
  infinity is equal to none of them, as \<open>NaN\<close> is, so the finite value is kept.
\<close>

definition taskNum_of :: "jsstring \<Rightarrow> jsnum" where
  "taskNum_of d = (case third_part d of None \<Rightarrow> None | Some s \<Rightarrow> finite_of (parseInt s))"

text \<open>The \<open>tasks.map\<close> that toggles, and \<open>taskFound\<close>.\<close>

definition toggle :: "jsnum \<Rightarrow> task list \<Rightarrow> task list" where
  "toggle taskNum ts =
     map (\<lambda>t. if strict_eq (task_id t) taskNum then t\<lparr>task_done := \<not> task_done t\<rparr> else t) ts"

definition taskFound :: "jsnum \<Rightarrow> task list \<Rightarrow> bool" where
  "taskFound taskNum ts = list_ex (\<lambda>t. strict_eq (task_id t) taskNum) ts"

text \<open>The last line of the message, kept unless it matches \<open>/^\d+\./\<close>.\<close>

definition numbered :: "jsstring \<Rightarrow> bool" where
  "numbered s \<longleftrightarrow>
     takeWhile is_digit s \<noteq> [] \<and> (case dropWhile is_digit s of [] \<Rightarrow> False | c # _ \<Rightarrow> c = 46)"

definition quote_of :: "jsstring \<Rightarrow> jsstring option" where
  "quote_of msg_text = (let quote = last (split 10 msg_text) in if numbered quote then None else Some quote)"

definition toggle_buttons :: "task list \<Rightarrow> button list list" where
  "toggle_buttons ts = build_rows [] (map (\<lambda>t. Button (task_id t) (task_done t)) ts)"

definition check_task_try :: "env \<Rightarrow> callback_query \<Rightarrow> int \<Rightarrow> unit io" where
  "check_task_try e q userId =
     (let taskNum = taskNum_of (query_data q) in
      andThen (select e Q_today (select_tasks userId (CURRENT_DATE e))) (\<lambda>dbRes.
      case dbRes of
        [] \<Rightarrow> ret ()
      | r # _ \<Rightarrow>
          let ts = (case r of None \<Rightarrow> [] | Some ts \<Rightarrow> ts) in
          if taskFound taskNum ts
          then
            andThen (execute e Q_update (update_tasks userId (CURRENT_DATE e) (toggle taskNum ts))) (\<lambda>_.
            awaitSend e Edit_message
              (EditMessageText (query_chat q) (query_message_id q) (toggle taskNum ts)
                 (quote_of (query_message_text q)) (toggle_buttons (toggle taskNum ts))))
          else ret ()))"

text \<open>
  The goal-deletion button: \<open>goalId\<close> is a string, which the store casts to the type of
  \<open>goals.id\<close> or refuses; \<open>undefined\<close> is sent as null and matches no row.
\<close>

definition delete_goal_try :: "env \<Rightarrow> callback_query \<Rightarrow> unit io" where
  "delete_goal_try e q =
     andThen
       (case third_part (query_data q) of
          None \<Rightarrow> select e Q_delete_goal (\<lambda>_. ())
        | Some goalId \<Rightarrow>
            (case goal_id_of_text e goalId of
               None \<Rightarrow> throw StoreError
             | Some gid \<Rightarrow> execute e Q_delete_goal (delete_goal gid))) (\<lambda>_.
     andThen (awaitSend e Delete_message (DeleteMessage (query_chat q) (query_message_id q))) (\<lambda>_.
     awaitSend e Send_deleted (Notice (query_chat q) GoalDeleted)))"

definition on_callback_query :: "env \<Rightarrow> callback_query \<Rightarrow> unit io" where
  "on_callback_query e q =
     andThen (select e Q_user (select_user (query_chat q))) (\<lambda>userRes.
     case userRes of
       [] \<Rightarrow> ret ()
     | u # _ \<Rightarrow>
         andThen
           (if startsWith (query_data q) (js ''check_task_'')
            then tryCatch (check_task_try e q (user_id u)) (\<lambda>err. console_error err)
            else ret ()) (\<lambda>_.
         andThen
           (if startsWith (query_data q) (js ''delete_goal_'')
            then tryCatch (delete_goal_try e q) (\<lambda>err. console_error err)
            else ret ()) (\<lambda>_.
         send (AnswerCallback (query_id q)))))"

section \<open>Listing goals and deleting one by its number (\<open>bot.js\<close>)\<close>

text \<open>
  \<open>SELECT g.description, g.deadline FROM goals g JOIN users u ON g.user_id = u.id WHERE
  u.chat_id = $1 ORDER BY g.priority DESC, g.id ASC\<close>.
\<close>

definition select_mygoals :: "int \<Rightarrow> world \<Rightarrow> goal_row list" where
  "select_mygoals chatId w =
     by_priority_then_id
       (concat (map (\<lambda>g. map (\<lambda>u. g)
                       (filter (\<lambda>u. goal_user g = user_id u \<and> chat_id u = chatId) (users w)))
                 (goals w)))"

definition mygoals :: "env \<Rightarrow> int \<Rightarrow> unit io" where
  "mygoals e chatId =
     tryCatch
       (andThen (select e Q_mygoals (select_mygoals chatId)) (\<lambda>rows.
        if rows \<noteq> [] then send (GoalsList chatId rows) else send (Notice chatId NoGoalsSet)))
       (\<lambda>err. andThen (console_error err) (\<lambda>_. send (Notice chatId ErrorFetching)))"

text \<open>
  \<open>/delete (\d+)\<close>, from the captured digits on. A number that is \<open>NaN\<close> passes both
  comparisons and indexes nothing, so reading \<open>goalToDelete.id\<close> throws; an infinity
  fails one of them.
\<close>

definition delete_by_number :: "env \<Rightarrow> int \<Rightarrow> jsstring \<Rightarrow> unit io" where
  "delete_by_number e chatId match1 =
     (let numberToDelete = parseInt match1 in
      tryCatch
        (andThen (select e Q_user (select_user chatId)) (\<lambda>userRes.
         case userRes of
           [] \<Rightarrow> send (Notice chatId PleaseStart)
         | u # _ \<Rightarrow>
             andThen (select e Q_goals_by_id (select_goals_by_id (user_id u))) (\<lambda>gs.
             case numberToDelete of
               NaN \<Rightarrow> throw TypeError
             | PosInfinity \<Rightarrow> send (Notice chatId (InvalidNumber (length gs)))
             | NegInfinity \<Rightarrow> send (Notice chatId (InvalidNumber (length gs)))
             | Finite n \<Rightarrow>
                 if n < 1 \<or> n > int (length gs)
                 then send (Notice chatId (InvalidNumber (length gs)))
                 else
                   (let goalToDelete = gs ! nat (n - 1) in
                    andThen (execute e Q_delete_by_id (delete_goal (goal_id goalToDelete))) (\<lambda>_.
                    send (Notice chatId (DeletedGoal (description goalToDelete))))))))
        (\<lambda>err. andThen (console_error err) (\<lambda>_. send (Notice chatId ErrorDeleting))))"

text \<open>In the file with the carry-over, \<open>/delete (\d+)\<close> only answers with a tip.\<close>

definition delete_tip :: "int \<Rightarrow> unit io" where
  "delete_tip chatId = send (Notice chatId DeleteTip)"

section \<open>What an invocation reads and whether it writes\<close>

text \<open>The \<open>unfinishedTasks\<close> and the \<open>prompt\<close> of an invocation whose two reads succeed.\<close>

definition carry_over :: "env \<Rightarrow> int \<Rightarrow> world \<Rightarrow> jsstring list" where
  "carry_over e userId w = unfinished_of (select_tasks userId (yesterdayStr e) w)"

definition plan_prompt :: "env \<Rightarrow> int \<Rightarrow> world \<Rightarrow> jsstring" where
  "plan_prompt e userId w = buildPrompt (select_goals userId w) (carry_over e userId w)"

text \<open>
  An invocation gets as far as its write, with the text \<open>txt\<close> from the provider: the
  reads succeed, there is a goal or a carried-over task, the provider answers, and the
  upsert is not rejected.
\<close>

definition plan_generated :: "env \<Rightarrow> int \<Rightarrow> world \<Rightarrow> jsstring \<Rightarrow> bool" where
  "plan_generated e userId w txt \<longleftrightarrow>
     \<not> fails e Q_yesterday \<and> \<not> fails e Q_goals
     \<and> \<not> (select_goals userId w = [] \<and> carry_over e userId w = [])
     \<and> generate e (plan_prompt e userId w) = Inr txt \<and> \<not> fails e Q_upsert"

definition plan_generated_v1 :: "env \<Rightarrow> int \<Rightarrow> world \<Rightarrow> jsstring \<Rightarrow> bool" where
  "plan_generated_v1 e userId w txt \<longleftrightarrow>
     \<not> fails e Q_goals \<and> select_goals userId w \<noteq> []
     \<and> generate e (buildPrompt_v1 (select_goals userId w)) = Inr txt \<and> \<not> fails e Q_upsert"

text \<open>
  The task list that a click in a chat is resolved against: that of the first record of
  today of the first user of the chat; empty when the user is unknown, when there is no
  record, or when its \<open>tasks\<close> are null.
\<close>

definition todays_tasks :: "env \<Rightarrow> int \<Rightarrow> world \<Rightarrow> task list" where
  "todays_tasks e chatId w =
     (case select_user chatId w of
        [] \<Rightarrow> []
      | u # _ \<Rightarrow>
          (case select_tasks (user_id u) (CURRENT_DATE e) w of
             [] \<Rightarrow> []
           | r # _ \<Rightarrow> (case r of None \<Rightarrow> [] | Some ts \<Rightarrow> ts)))"

section \<open>Worlds and inputs of the examples\<close>

definition report_text :: jsstring where
  "report_text =
     js ''1. Finish report\<newline>2) Call client\<newline>**3:** Review notes\<newline>Keep going!''"


definition report_tasks :: "task list" where
  "report_tasks =
     [\<lparr>task_id = Some 1, task_text = js ''Finish report'', task_done = False\<rparr>,
      \<lparr>task_id = Some 2, task_text = js ''Call client'', task_done = False\<rparr>,
      \<lparr>task_id = Some 3, task_text = js ''Review notes'', task_done = False\<rparr>]"


text \<open>
  An environment in which nothing fails, at 06:00 UTC of 2026-11-03 (day 20760), with the
  host and the store in UTC; the same half an hour before midnight UTC of 2026-11-02,
  which is 00:30 of 2026-11-03 in Lagos; one whose provider gives another text; and
  one whose provider is down.
\<close>

definition env_ok :: env where
  "env_ok = \<lparr>now = 1793685600, host_offset = 0, store_offset = 0,
             generate = (\<lambda>p. Inr (js ''1. Walk'')), goal_id_of_text = (\<lambda>s. None),
             fails = (\<lambda>s. False)\<rparr>"

definition env_midnight :: env where
  "env_midnight = env_ok\<lparr>now := 1793662200\<rparr>"

definition env_second :: env where
  "env_second = env_ok\<lparr>generate := (\<lambda>p. Inr (js ''1. Swim\<newline>2. Stretch''))\<rparr>"

definition env_provider_down :: env where
  "env_provider_down = env_ok\<lparr>generate := (\<lambda>p. Inl ProviderError)\<rparr>"

text \<open>
  The first of these on a host whose zone is that of Lagos, one hour ahead of UTC; and
  the morning one with the store down: every query is rejected.
\<close>

definition env_lagos :: env where
  "env_lagos = env_midnight\<lparr>host_offset := 3600\<rparr>"

definition env_store_down :: env where
  "env_store_down =
     env_ok\<lparr>fails := (\<lambda>s. s \<notin> {Send_plan, Edit_message, Delete_message, Send_deleted})\<rparr>"

definition goal_X :: goal_row where
  "goal_X = \<lparr>goal_id = 1, goal_user = 1, description = js ''Run'', deadline = None, priority = 0\<rparr>"

definition goal_Y :: goal_row where
  "goal_Y = \<lparr>goal_id = 2, goal_user = 1, description = js ''Read'', deadline = None, priority = 5\<rparr>"

definition goal_Z :: goal_row where
  "goal_Z = \<lparr>goal_id = 3, goal_user = 1, description = js ''Save'', deadline = None, priority = 0\<rparr>"

definition goal_U :: goal_row where
  "goal_U = \<lparr>goal_id = 4, goal_user = 2, description = js ''Swim'', deadline = Some (js ''May''), priority = 0\<rparr>"

text \<open>One registered user without goals; the same with three goals; two users with goals.\<close>

definition world_one_user :: world where
  "world_one_user =
     \<lparr>users = [\<lparr>user_id = 1, chat_id = 100\<rparr>], goals = [], daily_activities = [],
      outbox = [], gen_calls = [], console = []\<rparr>"

definition world_goals :: world where
  "world_goals = world_one_user\<lparr>goals := [goal_X, goal_Y, goal_Z]\<rparr>"

definition world_two_users :: world where
  "world_two_users =
     world_one_user\<lparr>users := [\<lparr>user_id = 1, chat_id = 100\<rparr>, \<lparr>user_id = 2, chat_id = 200\<rparr>],
                    goals := [goal_X, goal_U]\<rparr>"

definition envs_first_fails :: "int \<Rightarrow> env" where
  "envs_first_fails userId = (if userId = 1 then env_provider_down else env_ok)"

text \<open>
  The user of chat 100 with the plan of the specification's example stored for day 20760,
  and with a plan in which two tasks have the ordinal 2; a click on button 2 and one on
  a button 9 that no task has.
\<close>

definition plan_row :: activity_row where
  "plan_row = \<lparr>act_user = 1, activity_date = 20760, content = report_text, tasks = Some report_tasks\<rparr>"

definition world_plan :: world where
  "world_plan = world_goals\<lparr>daily_activities := [plan_row]\<rparr>"

definition dup_tasks :: "task list" where
  "dup_tasks =
     [\<lparr>task_id = Some 1, task_text = js ''Stretch'', task_done = False\<rparr>,
      \<lparr>task_id = Some 2, task_text = js ''Read ten pages'', task_done = False\<rparr>,
      \<lparr>task_id = Some 2, task_text = js ''Save receipts'', task_done = True\<rparr>]"

definition world_dup :: world where
  "world_dup =
     world_goals\<lparr>daily_activities :=
       [\<lparr>act_user = 1, activity_date = 20760, content = js ''1. Stretch'', tasks = Some dup_tasks\<rparr>]\<rparr>"

definition click_2 :: callback_query where
  "click_2 = \<lparr>query_id = 7, query_chat = 100, query_message_id = 55,
              query_message_text = report_text, query_data = js ''check_task_2''\<rparr>"

definition click_9 :: callback_query where
  "click_9 = click_2\<lparr>query_data := js ''check_task_9''\<rparr>"

text \<open>
  The same user with a record for day 20759, the day before: one task done and one not.
\<close>

definition yesterday_tasks :: "task list" where
  "yesterday_tasks =
     [\<lparr>task_id = Some 1, task_text = js ''Finish report'', task_done = True\<rparr>,
      \<lparr>task_id = Some 2, task_text = js ''Call client'', task_done = False\<rparr>]"

definition world_yesterday :: world where
  "world_yesterday =
     world_goals\<lparr>daily_activities :=
       [\<lparr>act_user = 1, activity_date = 20759, content = js ''1. Finish report\<newline>2. Call client'',
         tasks = Some yesterday_tasks\<rparr>]\<rparr>"

text \<open>
  A user without goals whose record for day 20759 has its one task done; and the user of
  chat 100 after three goals were added, each with the default priority 0.
\<close>

definition world_all_done :: world where
  "world_all_done =
     world_one_user\<lparr>daily_activities :=
       [\<lparr>act_user = 1, activity_date = 20759, content = js ''1. Finish report'',
         tasks = Some [\<lparr>task_id = Some 1, task_text = js ''Finish report'', task_done = True\<rparr>]\<rparr>]\<rparr>"

text \<open>The same user with a record for day 20758 too, in which a task is not done.\<close>

definition world_older_task :: world where
  "world_older_task =
     world_all_done\<lparr>daily_activities :=
       \<lparr>act_user = 1, activity_date = 20758, content = js ''1. Finish report\<newline>2. Call client'',
         tasks = Some yesterday_tasks\<rparr> # daily_activities world_all_done\<rparr>"

definition world_inserted :: world where
  "world_inserted =
     insert_goal 0 3 1 (js ''Save'') None
       (insert_goal 0 2 1 (js ''Read'') None
          (insert_goal 0 1 1 (js ''Run'') None world_one_user))"

section \<open>The task parser\<close>

lemmas js_eval = js_def trim_def match_task_def is_ws_def is_line_terminator_def is_digit_def
  is_separator_def parseInt_def radix_digit_def digit_val_def parse_line_def parseTasks_def
  List.map_filter_def Let_def to_double_def finite_of_def negate_def stringify_def






lemma parseInt_rounds:
  "parseInt (js ''9007199254740993'') = Finite 9007199254740992"
  by (simp add: js_eval bit_length.simps)










section \<open>The orchestrator, case by case\<close>

lemmas io_defs = ret_def throw_def andThen_def tryCatch_def send_def awaitSend_def
  console_error_def select_def execute_def generateContent_def

lemmas example_defs = env_ok_def env_midnight_def env_provider_down_def env_second_def goal_X_def goal_Y_def
  goal_Z_def goal_U_def world_one_user_def world_goals_def world_two_users_def
  envs_first_fails_def

lemma activities_of_frame [simp]:
  "activities_of u d (w\<lparr>outbox := ob\<rparr>) = activities_of u d w"
  "activities_of u d (w\<lparr>gen_calls := gc\<rparr>) = activities_of u d w"
  "activities_of u d (w\<lparr>console := co\<rparr>) = activities_of u d w"
  by (simp_all add: activities_of_def)

lemma select_tasks_frame [simp]:
  "select_tasks u d (w\<lparr>outbox := ob\<rparr>) = select_tasks u d w"
  "select_tasks u d (w\<lparr>gen_calls := gc\<rparr>) = select_tasks u d w"
  "select_tasks u d (w\<lparr>console := co\<rparr>) = select_tasks u d w"
  by (simp_all add: select_tasks_def)

lemma select_goals_frame [simp]:
  "select_goals u (w\<lparr>outbox := ob\<rparr>) = select_goals u w"
  "select_goals u (w\<lparr>gen_calls := gc\<rparr>) = select_goals u w"
  "select_goals u (w\<lparr>console := co\<rparr>) = select_goals u w"
  "select_goals u (w\<lparr>daily_activities := da\<rparr>) = select_goals u w"
  by (simp_all add: select_goals_def)

lemma select_goals_empty:
  "filter (\<lambda>g. goal_user g = u) (goals w) = [] \<Longrightarrow> select_goals u w = []"
  by (simp add: select_goals_def by_priority_then_id_def)

text \<open>What the \<open>try\<close> block leaves and how it ends, by the first step that fails.\<close>

lemma plan_try_cases:
  "generateAndSendDailyPlan_try e chatId userId w =
     (let w0 = w\<lparr>outbox := outbox w @ [Notice chatId Checking]\<rparr>;
          w1 = w0\<lparr>gen_calls := gen_calls w @ [plan_prompt e userId w]\<rparr>
      in if fails e Q_yesterday \<or> fails e Q_goals then (Inl StoreError, w0)
         else if select_goals userId w = [] \<and> carry_over e userId w = []
         then (Inr (), w\<lparr>outbox := outbox w @ [Notice chatId Checking, Notice chatId NoGoals]\<rparr>)
         else (case generate e (plan_prompt e userId w) of
                 Inl err \<Rightarrow> (Inl err, w1)
               | Inr txt \<Rightarrow>
                   if fails e Q_upsert then (Inl StoreError, w1)
                   else if fails e Send_plan
                   then (Inl TransportError,
                         upsert_activity userId (CURRENT_DATE e) txt (stringify (parseTasks txt)) w1)
                   else (Inr (),
                         (upsert_activity userId (CURRENT_DATE e) txt (stringify (parseTasks txt)) w1)
                           \<lparr>outbox := outbox w @ [Notice chatId Checking,
                               Plan chatId (carry_over e userId w \<noteq> []) txt
                                 (plan_buttons (parseTasks txt))]\<rparr>)))"
  by (simp add: generateAndSendDailyPlan_try_def io_defs Let_def carry_over_def plan_prompt_def
      upsert_activity_def split: sum.split)

lemma plan_cases:
  "generateAndSendDailyPlan e chatId userId w =
     (case generateAndSendDailyPlan_try e chatId userId w of
        (Inl err, w') \<Rightarrow>
          (Inr (), w'\<lparr>console := console w' @ [err], outbox := outbox w' @ [Notice chatId Snag]\<rparr>)
      | (Inr x, w') \<Rightarrow> (Inr x, w'))"
  by (simp add: generateAndSendDailyPlan_def io_defs)

lemma plan_try_raises:
  assumes "fst (generateAndSendDailyPlan_try e chatId userId w) = Inl err"
  shows "outbox (snd (generateAndSendDailyPlan_try e chatId userId w)) =
           outbox w @ [Notice chatId Checking]"
    and "console (snd (generateAndSendDailyPlan_try e chatId userId w)) = console w"
  using assms
  by (simp_all add: plan_try_cases Let_def upsert_activity_def split: if_splits sum.splits)



lemma plan_returns: "fst (generateAndSendDailyPlan e chatId userId w) = Inr ()"
  by (simp add: plan_cases split: prod.split sum.split)

text \<open>The same for \<open>bot.js\<close>.\<close>

lemma plan_v1_try_cases:
  "generateAndSendDailyPlan_v1_try e chatId userId w =
     (let w1 = w\<lparr>outbox := outbox w @ [Notice chatId Generating],
                  gen_calls := gen_calls w @ [buildPrompt_v1 (select_goals userId w)]\<rparr>
      in if fails e Q_goals then (Inl StoreError, w)
         else if select_goals userId w = []
         then (Inr (), w\<lparr>outbox := outbox w @ [Notice chatId NoGoals]\<rparr>)
         else (case generate e (buildPrompt_v1 (select_goals userId w)) of
                 Inl err \<Rightarrow> (Inl err, w1)
               | Inr txt \<Rightarrow>
                   if fails e Q_upsert then (Inl StoreError, w1)
                   else (Inr (),
                         (upsert_content userId (CURRENT_DATE e) txt w1)
                           \<lparr>outbox := outbox w @ [Notice chatId Generating, PlanText chatId txt]\<rparr>)))"
  by (simp add: generateAndSendDailyPlan_v1_try_def io_defs Let_def upsert_content_def
      split: sum.split)

lemma plan_v1_cases:
  "generateAndSendDailyPlan_v1 e chatId userId w =
     (case generateAndSendDailyPlan_v1_try e chatId userId w of
        (Inl err, w') \<Rightarrow>
          (Inr (), w'\<lparr>console := console w' @ [err], outbox := outbox w' @ [Notice chatId SnagLater]\<rparr>)
      | (Inr x, w') \<Rightarrow> (Inr x, w'))"
  by (simp add: generateAndSendDailyPlan_v1_def io_defs)


section \<open>The zero-goal short circuit\<close>

lemma yesterdayStr_same_day:
  "lagos_date (now e - host_offset e) = lagos_date (now e) \<Longrightarrow>
   yesterdayStr e = lagos_date (now e) - 1"
  by (simp add: yesterdayStr_def yesterdayDate_def todayDate_def lagosTime_def lagos_date_def
      algebra_simps)

lemma nothing_unfinished:
  assumes "\<forall>r \<in> set (daily_activities w). act_user r = u \<and> activity_date r = d \<longrightarrow>
             (case tasks r of None \<Rightarrow> True | Some ts \<Rightarrow> \<forall>t \<in> set ts. task_done t)"
  shows "unfinished_of (select_tasks u d w) = []"
proof (cases "activities_of u d w")
  case Nil
  then show ?thesis by (simp add: unfinished_of_def select_tasks_def)
next
  case (Cons r rs)
  then have "r \<in> set (activities_of u d w)" by simp
  then have "r \<in> set (daily_activities w)" "act_user r = u" "activity_date r = d"
    by (simp_all add: activities_of_def activity_key_def)
  with assms have "case tasks r of None \<Rightarrow> True | Some ts \<Rightarrow> \<forall>t \<in> set ts. task_done t"
    by blast
  then show ?thesis
    using Cons by (simp add: unfinished_of_def select_tasks_def filter_empty_conv split: option.splits)
qed

lemma no_goal_selected:
  "\<forall>g \<in> set (goals w). goal_user g \<noteq> u \<Longrightarrow> select_goals u w = []"
  by (simp add: select_goals_def by_priority_then_id_def filter_empty_conv)

text \<open>
  Claim C2, as amended. The user has no stored goal, and the record stored for
  yesterday, the calendar date of Lagos before today's, if there is one, has no task that
  is not done. The two reads succeed, and the wall clock of Lagos, read as a time of the
  host's zone, is on the same calendar date as in Lagos, as it always is on a host in UTC
  (then the carry-over lookup reads yesterday's record). Then the invocation calls the
  generation provider not at all, writes nothing to the store, logs nothing and returns
  normally; it sends the progress notice that every invocation starts with and then the
  "no active goals" message, and nothing else. The orchestrator of \<open>bot.js\<close>, with no
  goal, sends the "no active goals" message alone.
\<close>

theorem zero_goal_short_circuit:
  "(\<not> fails e Q_yesterday \<and> \<not> fails e Q_goals
      \<and> lagos_date (now e - host_offset e) = lagos_date (now e)
      \<and> (\<forall>g \<in> set (goals w). goal_user g \<noteq> userId)
      \<and> (\<forall>r \<in> set (daily_activities w).
            act_user r = userId \<and> activity_date r = lagos_date (now e) - 1 \<longrightarrow>
            (case tasks r of None \<Rightarrow> True | Some ts \<Rightarrow> \<forall>t \<in> set ts. task_done t)) \<longrightarrow>
      generateAndSendDailyPlan e chatId userId w =
        (Inr (), w\<lparr>outbox := outbox w @ [Notice chatId Checking, Notice chatId NoGoals]\<rparr>))
   \<and> (\<not> fails e Q_goals \<and> (\<forall>g \<in> set (goals w). goal_user g \<noteq> userId) \<longrightarrow>
      generateAndSendDailyPlan_v1 e chatId userId w =
        (Inr (), w\<lparr>outbox := outbox w @ [Notice chatId NoGoals]\<rparr>))"
proof (intro conjI impI)
  assume h: "\<not> fails e Q_yesterday \<and> \<not> fails e Q_goals
      \<and> lagos_date (now e - host_offset e) = lagos_date (now e)
      \<and> (\<forall>g \<in> set (goals w). goal_user g \<noteq> userId)
      \<and> (\<forall>r \<in> set (daily_activities w).
            act_user r = userId \<and> activity_date r = lagos_date (now e) - 1 \<longrightarrow>
            (case tasks r of None \<Rightarrow> True | Some ts \<Rightarrow> \<forall>t \<in> set ts. task_done t))"
  then have y: "yesterdayStr e = lagos_date (now e) - 1" by (simp add: yesterdayStr_same_day)
  from h have "unfinished_of (select_tasks userId (lagos_date (now e) - 1) w) = []"
    by (intro nothing_unfinished) simp
  then have c: "carry_over e userId w = []" by (simp add: carry_over_def y)
  from h have g: "select_goals userId w = []" by (simp add: no_goal_selected)
  from h c g show "generateAndSendDailyPlan e chatId userId w =
        (Inr (), w\<lparr>outbox := outbox w @ [Notice chatId Checking, Notice chatId NoGoals]\<rparr>)"
    by (simp add: plan_cases plan_try_cases)
next
  assume h: "\<not> fails e Q_goals \<and> (\<forall>g \<in> set (goals w). goal_user g \<noteq> userId)"
  then have g: "select_goals userId w = []" by (simp add: no_goal_selected)
  from h g show "generateAndSendDailyPlan_v1 e chatId userId w =
        (Inr (), w\<lparr>outbox := outbox w @ [Notice chatId NoGoals]\<rparr>)"
    by (simp add: plan_v1_cases plan_v1_try_cases)
qed

theorem zero_goal_short_circuit_witness:
  "\<not> fails env_ok Q_yesterday \<and> \<not> fails env_ok Q_goals
   \<and> lagos_date (now env_ok - host_offset env_ok) = lagos_date (now env_ok)
   \<and> goals world_all_done = []
   \<and> map (\<lambda>r. (act_user r, activity_date r, map_option (map task_done) (tasks r)))
         (daily_activities world_all_done) =
       [(1, lagos_date (now env_ok) - 1, Some [True])]
   \<and> generateAndSendDailyPlan env_ok 100 1 world_all_done =
       (Inr (), world_all_done\<lparr>outbox := [Notice 100 Checking, Notice 100 NoGoals]\<rparr>)
   \<and> generateAndSendDailyPlan_v1 env_ok 100 1 world_all_done =
       (Inr (), world_all_done\<lparr>outbox := [Notice 100 NoGoals]\<rparr>)"
proof -
  have h: "\<not> fails env_ok Q_yesterday \<and> \<not> fails env_ok Q_goals
     \<and> lagos_date (now env_ok - host_offset env_ok) = lagos_date (now env_ok)
     \<and> (\<forall>g \<in> set (goals world_all_done). goal_user g \<noteq> 1)
     \<and> (\<forall>r \<in> set (daily_activities world_all_done).
         act_user r = 1 \<and> activity_date r = lagos_date (now env_ok) - 1 \<longrightarrow>
         (case tasks r of None \<Rightarrow> True | Some ts \<Rightarrow> \<forall>t \<in> set ts. task_done t))"
    by (simp add: example_defs world_all_done_def lagos_date_def)
  have d: "goals world_all_done = []"
    "map (\<lambda>r. (act_user r, activity_date r, map_option (map task_done) (tasks r)))
         (daily_activities world_all_done) =
       [(1, lagos_date (now env_ok) - 1, Some [True])]"
    by (simp_all add: example_defs world_all_done_def lagos_date_def)
  have o: "outbox world_all_done = []" by (simp add: example_defs world_all_done_def)
  note t = zero_goal_short_circuit[where e = env_ok and userId = 1 and w = world_all_done
      and chatId = 100]
  have a: "generateAndSendDailyPlan env_ok 100 1 world_all_done =
       (Inr (), world_all_done\<lparr>outbox := [Notice 100 Checking, Notice 100 NoGoals]\<rparr>)"
    using t[THEN conjunct1, THEN mp, OF h] o by simp
  have b: "generateAndSendDailyPlan_v1 env_ok 100 1 world_all_done =
       (Inr (), world_all_done\<lparr>outbox := [Notice 100 NoGoals]\<rparr>)"
    using t[THEN conjunct2, THEN mp] h o by simp
  from h have c: "\<not> fails env_ok Q_yesterday" "\<not> fails env_ok Q_goals"
    "lagos_date (now env_ok - host_offset env_ok) = lagos_date (now env_ok)"
    by simp_all
  show ?thesis using c d a b by (intro conjI)
qed

text \<open>
  Claim C2 as stated fails: for the user of chat 100, who has no goal and no record, the
  orchestrator sends two messages, the progress notice and then the "no active goals"
  message, not the latter alone. With the store down, the same user gets the progress
  notice and the retry notice. And at 00:30 in Lagos on a host in the zone of Lagos, a
  user with no goal, whose record for yesterday has its task done and whose record for
  the day before has one that is not, gets a plan: the provider is called with that
  task.
\<close>

theorem zero_goal_counterexample:
  "filter (\<lambda>g. goal_user g = 1) (goals world_one_user) = []
   \<and> daily_activities world_one_user = []
   \<and> outbox (snd (generateAndSendDailyPlan env_ok 100 1 world_one_user)) =
       outbox world_one_user @ [Notice 100 Checking, Notice 100 NoGoals]
   \<and> outbox (snd (generateAndSendDailyPlan env_ok 100 1 world_one_user)) \<noteq>
       outbox world_one_user @ [Notice 100 NoGoals]
   \<and> outbox (snd (generateAndSendDailyPlan env_store_down 100 1 world_one_user)) =
       [Notice 100 Checking, Notice 100 Snag]
   \<and> goals world_older_task = []
   \<and> map (\<lambda>r. (activity_date r, map_option (map task_done) (tasks r)))
         (daily_activities world_older_task) =
       [(lagos_date (now env_lagos) - 2, Some [True, False]),
        (lagos_date (now env_lagos) - 1, Some [True])]
   \<and> gen_calls (snd (generateAndSendDailyPlan env_lagos 100 1 world_older_task)) =
       [buildPrompt [] [js ''Call client'']]
   \<and> outbox (snd (generateAndSendDailyPlan env_lagos 100 1 world_older_task)) =
       [Notice 100 Checking, Plan 100 True (js ''1. Walk'') [[Button (Some 1) False]]]"
proof -
  have a: "filter (\<lambda>g. goal_user g = 1) (goals world_one_user) = []
     \<and> daily_activities world_one_user = []
     \<and> outbox (snd (generateAndSendDailyPlan env_ok 100 1 world_one_user)) =
         outbox world_one_user @ [Notice 100 Checking, Notice 100 NoGoals]
     \<and> outbox (snd (generateAndSendDailyPlan env_ok 100 1 world_one_user)) \<noteq>
         outbox world_one_user @ [Notice 100 NoGoals]"
    by (simp add: plan_cases plan_try_cases example_defs carry_over_def select_tasks_def
        activities_of_def unfinished_of_def select_goals_empty)
  have b: "outbox (snd (generateAndSendDailyPlan env_store_down 100 1 world_one_user)) =
       [Notice 100 Checking, Notice 100 Snag]"
    by (simp add: plan_cases plan_try_cases Let_def env_store_down_def example_defs)
  have c: "goals world_older_task = []"
    "map (\<lambda>r. (activity_date r, map_option (map task_done) (tasks r)))
         (daily_activities world_older_task) =
       [(lagos_date (now env_lagos) - 2, Some [True, False]),
        (lagos_date (now env_lagos) - 1, Some [True])]"
    by (simp_all add: world_older_task_def world_all_done_def yesterday_tasks_def env_lagos_def
        example_defs lagos_date_def)
  have d: "gen_calls (snd (generateAndSendDailyPlan env_lagos 100 1 world_older_task)) =
       [buildPrompt [] [js ''Call client'']]
     \<and> outbox (snd (generateAndSendDailyPlan env_lagos 100 1 world_older_task)) =
       [Notice 100 Checking, Plan 100 True (js ''1. Walk'') [[Button (Some 1) False]]]"
    by (simp add: plan_cases plan_try_cases Let_def plan_prompt_def carry_over_def
        select_tasks_def activities_of_def activity_key_def unfinished_of_def select_goals_def
        by_priority_then_id_def upsert_activity_def CURRENT_DATE_def yesterdayStr_def
        yesterdayDate_def todayDate_def lagosTime_def plan_buttons_def
        world_older_task_def world_all_done_def yesterday_tasks_def env_lagos_def
        example_defs js_eval)
  show ?thesis using a b c d by (intro conjI) simp_all
qed

section \<open>The day boundary\<close>

lemma yesterdayStr_utc_host:
  "host_offset e = 0 \<Longrightarrow> yesterdayStr e = lagos_date (now e) - 1"
  by (simp add: yesterdayStr_def yesterdayDate_def todayDate_def lagosTime_def lagos_date_def)

lemma CURRENT_DATE_lagos_store:
  "store_offset e = 3600 \<Longrightarrow> CURRENT_DATE e = lagos_date (now e)"
  by (simp add: CURRENT_DATE_def lagos_date_def)

text \<open>
  Claim C7 fails on the code. At 23:30 UTC of 2026-11-02 (00:30 of 2026-11-03 in Lagos),
  with the host and the store in UTC, the carry-over lookup and the upsert use the same
  day, 2026-11-02 (day 20759), while the day of Lagos is 2026-11-03 and its yesterday
  2026-11-02: "today" is the date of the store's zone. On a host one hour ahead of UTC
  the carry-over lookup uses 2026-11-01: "yesterday" depends on the host's zone.
\<close>

theorem day_boundary_mismatch:
  "yesterdayStr env_midnight = 20759 \<and> CURRENT_DATE env_midnight = 20759
   \<and> lagos_date (now env_midnight) = 20760
   \<and> yesterdayStr (env_midnight\<lparr>host_offset := 3600\<rparr>) = 20758
   \<and> CURRENT_DATE (env_midnight\<lparr>store_offset := 3600\<rparr>) = 20760"
  by (simp add: example_defs yesterdayStr_def yesterdayDate_def todayDate_def lagosTime_def
      CURRENT_DATE_def lagos_date_def)

section \<open>Deleting a goal by its number\<close>

text \<open>
  Rows of \<open>goals\<close> whose priorities differ, which no statement of the bot writes: the
  user of chat 100 has the goals "Run" (id 1, priority 0), "Read" (id 2, priority 5) and
  "Save" (id 3, priority 0). The listing of \<open>bot.js\<close> shows them by priority, then id:
  Read, Run, Save. \<open>/delete 2\<close> counts by id alone and deletes "Read", the first goal of
  the listing, and leaves Run and Save.
\<close>

lemma delete_by_number_mismatch:
  "select_mygoals 100 world_goals = [goal_Y, goal_X, goal_Z]
   \<and> select_mygoals 100 (snd (delete_by_number env_ok 100 (js ''2'') world_goals)) = [goal_X, goal_Z]
   \<and> outbox (snd (delete_by_number env_ok 100 (js ''2'') world_goals)) =
       [Notice 100 (DeletedGoal (description goal_Y))]
   \<and> goal_X \<noteq> goal_Y"
  by (simp add: select_mygoals_def by_priority_then_id_def delete_by_number_def io_defs
      example_defs select_user_def select_goals_by_id_def delete_goal_def js_eval)

section \<open>Failures stay inside the orchestrator\<close>














text \<open>
  A run of the scheduler in which the provider fails in the turn of the first user: the
  second user gets the plan.
\<close>

lemma second_turn_after_failure:
  "outbox (snd (daily_scheduler env_ok envs_first_fails world_two_users)) =
     [Notice 100 Checking, Notice 100 Snag, Notice 200 Checking,
      Plan 200 False (js ''1. Walk'') [[Button (Some 1) False]]]
   \<and> console (snd (daily_scheduler env_ok envs_first_fails world_two_users)) = [ProviderError]
   \<and> map activity_key (daily_activities (snd (daily_scheduler env_ok envs_first_fails world_two_users))) =
       [(2, 20760)]"
  by (simp add: daily_scheduler_def select_def io_defs plan_cases plan_try_cases Let_def
      example_defs carry_over_def select_tasks_def activities_of_def activity_key_def
      unfinished_of_def select_goals_def by_priority_then_id_def upsert_activity_def
      CURRENT_DATE_def plan_buttons_def js_eval)


section \<open>The button handler, case by case\<close>

lemmas click_defs = plan_row_def world_plan_def dup_tasks_def world_dup_def click_2_def
  click_9_def report_tasks_def

lemma select_user_frame [simp]:
  "select_user c (w\<lparr>outbox := ob\<rparr>) = select_user c w"
  "select_user c (w\<lparr>console := co\<rparr>) = select_user c w"
  "select_user c (w\<lparr>daily_activities := da\<rparr>) = select_user c w"
  by (simp_all add: select_user_def)

lemma check_not_delete:
  "startsWith d (js ''check_task_'') \<Longrightarrow> \<not> startsWith d (js ''delete_goal_'')"
  by (auto simp: startsWith_def prefix_def js_def)

lemma check_task_try_cases:
  "check_task_try e q userId w =
     (let d = CURRENT_DATE e; k = taskNum_of (query_data q)
      in if fails e Q_today then (Inl StoreError, w)
         else (case select_tasks userId d w of
                 [] \<Rightarrow> (Inr (), w)
               | r # _ \<Rightarrow>
                   (let ts = (case r of None \<Rightarrow> [] | Some ts \<Rightarrow> ts)
                    in if \<not> taskFound k ts then (Inr (), w)
                       else if fails e Q_update then (Inl StoreError, w)
                       else if fails e Edit_message
                       then (Inl TransportError, update_tasks userId d (toggle k ts) w)
                       else (Inr (),
                             (update_tasks userId d (toggle k ts) w)
                               \<lparr>outbox := outbox w @
                                  [EditMessageText (query_chat q) (query_message_id q) (toggle k ts)
                                     (quote_of (query_message_text q))
                                     (toggle_buttons (toggle k ts))]\<rparr>))))"
  by (simp add: check_task_try_def io_defs Let_def update_tasks_def split: list.split)

text \<open>A click on a task button, once the user is found.\<close>

lemma on_check_task:
  assumes "startsWith (query_data q) (js ''check_task_'')" and "\<not> fails e Q_user"
    and "select_user (query_chat q) w = u # us"
  shows "on_callback_query e q w =
     (case check_task_try e q (user_id u) w of
        (Inl err, w') \<Rightarrow>
          (Inr (), w'\<lparr>console := console w' @ [err],
                      outbox := outbox w' @ [AnswerCallback (query_id q)]\<rparr>)
      | (Inr x, w') \<Rightarrow> (Inr (), w'\<lparr>outbox := outbox w' @ [AnswerCallback (query_id q)]\<rparr>))"
  using assms check_not_delete[OF assms(1)]
  by (simp add: on_callback_query_def io_defs split: prod.split sum.split)

lemma on_check_task_unknown:
  assumes "\<not> fails e Q_user" and "select_user (query_chat q) w = []"
  shows "on_callback_query e q w = (Inr (), w)"
  using assms by (simp add: on_callback_query_def io_defs)


section \<open>Toggling\<close>

lemma strict_eq_Some [simp]: "strict_eq a (Some n) \<longleftrightarrow> a = Some n"
  by (cases a) (auto simp: strict_eq_def)

lemma strict_eq_None [simp]: "strict_eq a None = False"
  by (cases a) (auto simp: strict_eq_def)

lemma taskFound_Nil [simp]: "taskFound k [] = False"
  by (simp add: taskFound_def)

lemma taskFound_NaN [simp]: "taskFound None ts = False"
  by (simp add: taskFound_def list_ex_iff)

lemma length_toggle [simp]: "length (toggle k ts) = length ts"
  by (simp add: toggle_def)

lemma toggle_toggle: "toggle k (toggle k ts) = ts"
  by (induction ts) (simp_all add: toggle_def)

lemma taskFound_toggle: "taskFound k (toggle k ts) = taskFound k ts"
  by (induction ts) (simp_all add: toggle_def taskFound_def)

lemma toggle_Some:
  "toggle (Some n) ts =
     map (\<lambda>t. if task_id t = Some n then t\<lparr>task_done := \<not> task_done t\<rparr> else t) ts"
  by (simp add: toggle_def)

lemma nth_toggle:
  "i < length ts \<Longrightarrow>
     task_id (toggle (Some n) ts ! i) = task_id (ts ! i)
     \<and> task_text (toggle (Some n) ts ! i) = task_text (ts ! i)
     \<and> task_done (toggle (Some n) ts ! i) =
         (if task_id (ts ! i) = Some n then \<not> task_done (ts ! i) else task_done (ts ! i))"
  by (simp add: toggle_def)

subsection \<open>The \<open>UPDATE\<close> statement\<close>

lemma update_tasks_frame [simp]:
  "users (update_tasks u d ts w) = users w"
  "goals (update_tasks u d ts w) = goals w"
  "outbox (update_tasks u d ts w) = outbox w"
  "console (update_tasks u d ts w) = console w"
  "gen_calls (update_tasks u d ts w) = gen_calls w"
  by (simp_all add: update_tasks_def)

lemma update_tasks_keys:
  "map activity_key (daily_activities (update_tasks u d ts w)) =
     map activity_key (daily_activities w)"
  by (simp add: update_tasks_def activity_key_def comp_def if_distrib cong: if_cong)

lemma select_tasks_update:
  "select_tasks u d (update_tasks u d ts w) = map (\<lambda>_. Some ts) (select_tasks u d w)"
proof -
  have "\<And>rows. map tasks (filter (\<lambda>r. activity_key r = (u, d))
            (map (\<lambda>r. if activity_key r = (u, d) then r\<lparr>tasks := Some ts\<rparr> else r) rows)) =
         map (\<lambda>_. Some ts) (map tasks (filter (\<lambda>r. activity_key r = (u, d)) rows))"
    subgoal for rows by (induction rows) (simp_all add: activity_key_def)
    done
  then show ?thesis by (simp add: select_tasks_def activities_of_def update_tasks_def)
qed

text \<open>With one record per user and day, writing back the tasks a record has changes nothing.\<close>

lemma key_unique:
  assumes "distinct (map activity_key rows)"
    and "filter (\<lambda>r. activity_key r = k) rows = r # rs"
  shows "rs = []"
proof -
  have "length (filter (\<lambda>r. activity_key r = k) rows) \<le> 1"
    using assms(1)
  proof (induction rows)
    case Nil
    then show ?case by simp
  next
    case (Cons a rows)
    show ?case
    proof (cases "activity_key a = k")
      case True
      with Cons.prems have "k \<notin> set (map activity_key rows)" by simp
      then have "filter (\<lambda>r. activity_key r = k) rows = []"
        by (auto simp: filter_empty_conv)
      with True show ?thesis by simp
    next
      case False
      with Cons show ?thesis by simp
    qed
  qed
  with assms(2) show ?thesis by simp
qed

lemma update_tasks_same:
  assumes "distinct (map activity_key (daily_activities w))"
    and "select_tasks u d w = Some ts # rs"
  shows "daily_activities (update_tasks u d ts w) = daily_activities w"
proof -
  from assms(2) obtain r rows' where f: "activities_of u d w = r # rows'" and t: "tasks r = Some ts"
    by (auto simp: select_tasks_def)
  from key_unique[OF assms(1)] f have "rows' = []" by (simp add: activities_of_def)
  with f have only: "filter (\<lambda>r. activity_key r = (u, d)) (daily_activities w) = [r]"
    by (simp add: activities_of_def)
  have "\<And>x. x \<in> set (daily_activities w) \<Longrightarrow> activity_key x = (u, d) \<Longrightarrow> x = r"
  proof -
    fix x assume "x \<in> set (daily_activities w)" "activity_key x = (u, d)"
    then have "x \<in> set (filter (\<lambda>r. activity_key r = (u, d)) (daily_activities w))" by simp
    with only show "x = r" by simp
  qed
  then have "map (\<lambda>r. if activity_key r = (u, d) then r\<lparr>tasks := Some ts\<rparr> else r)
               (daily_activities w) = daily_activities w"
    using t by (intro map_idI) auto
  then show ?thesis by (simp add: update_tasks_def)
qed


lemma update_tasks_again:
  assumes "daily_activities w1 = daily_activities (update_tasks u d ts' w)"
  shows "daily_activities (update_tasks u d ts w1) = daily_activities (update_tasks u d ts w)"
  using assms by (simp add: update_tasks_def activity_key_def comp_def)

lemma select_user_cong: "users w' = users w \<Longrightarrow> select_user c w' = select_user c w"
  by (simp add: select_user_def)

lemma select_tasks_cong:
  "daily_activities w' = daily_activities w \<Longrightarrow> select_tasks u d w' = select_tasks u d w"
  by (simp add: select_tasks_def activities_of_def)

lemma todays_tasks_found:
  assumes "taskFound k (todays_tasks e c w)"
  shows "\<exists>u us rs. select_user c w = u # us
           \<and> select_tasks (user_id u) (CURRENT_DATE e) w = Some (todays_tasks e c w) # rs"
  using assms by (auto simp: todays_tasks_def split: list.splits option.splits)

lemma todays_tasks_read:
  assumes "select_user c w = u # us" and "select_tasks (user_id u) (CURRENT_DATE e) w = Some ts # rs"
  shows "todays_tasks e c w = ts"
  using assms by (simp add: todays_tasks_def)

text \<open>A click whose ordinal is found, when the three queries succeed.\<close>

lemma on_check_task_found:
  assumes "startsWith (query_data q) (js ''check_task_'')"
    and "\<not> fails e Q_user" and "\<not> fails e Q_today" and "\<not> fails e Q_update"
    and "select_user (query_chat q) w = u # us"
    and "select_tasks (user_id u) (CURRENT_DATE e) w = Some ts # rs"
    and "taskFound (taskNum_of (query_data q)) ts"
  shows "fst (on_callback_query e q w) = Inr ()
     \<and> users (snd (on_callback_query e q w)) = users w
     \<and> goals (snd (on_callback_query e q w)) = goals w
     \<and> daily_activities (snd (on_callback_query e q w)) =
         daily_activities
           (update_tasks (user_id u) (CURRENT_DATE e) (toggle (taskNum_of (query_data q)) ts) w)"
  using assms(2-7)
  by (simp add: on_check_task[OF assms(1,2,5)] check_task_try_cases Let_def)

lemma todays_tasks_after:
  assumes "select_user c w = u # us"
    and "select_tasks (user_id u) d w = Some ts # rs"
    and "users w1 = users w"
    and "daily_activities w1 = daily_activities (update_tasks (user_id u) d ts' w)"
    and "CURRENT_DATE e = d"
  shows "select_user c w1 = u # us"
    and "select_tasks (user_id u) (CURRENT_DATE e) w1 = Some ts' # map (\<lambda>_. Some ts') rs"
    and "todays_tasks e c w1 = ts'"
proof -
  show a: "select_user c w1 = u # us"
    using assms(1) select_user_cong[OF assms(3), of c] by simp
  show b: "select_tasks (user_id u) (CURRENT_DATE e) w1 = Some ts' # map (\<lambda>_. Some ts') rs"
    using assms(2,5) select_tasks_cong[OF assms(4), of "user_id u" d]
    by (simp add: select_tasks_update)
  show "todays_tasks e c w1 = ts'"
    using a b by (rule todays_tasks_read)
qed

section \<open>Toggling twice\<close>

text \<open>
  Claim C5. A click on the button of ordinal n, for a user whose record of today holds a
  task with id n, leaves a task list of the same length, with the same ids and texts,
  in which the completion flag is inverted for the tasks with id n and unchanged for
  all others. A second click on the same day gives back the original list; with one
  record per user and day the whole table is as it was before the two clicks. The
  queries of both clicks are assumed to succeed.
\<close>

theorem toggle_twice:
  assumes "startsWith (query_data q) (js ''check_task_'')"
    and "taskNum_of (query_data q) = Some n"
    and "taskFound (Some n) (todays_tasks e1 (query_chat q) w)"
    and "\<not> fails e1 Q_user \<and> \<not> fails e1 Q_today \<and> \<not> fails e1 Q_update"
    and "\<not> fails e2 Q_user \<and> \<not> fails e2 Q_today \<and> \<not> fails e2 Q_update"
    and "CURRENT_DATE e2 = CURRENT_DATE e1"
  shows "let ts = todays_tasks e1 (query_chat q) w;
             w1 = snd (on_callback_query e1 q w);
             ts1 = todays_tasks e1 (query_chat q) w1;
             w2 = snd (on_callback_query e2 q w1)
         in length ts1 = length ts
            \<and> (\<forall>i < length ts.
                 task_id (ts1 ! i) = task_id (ts ! i) \<and> task_text (ts1 ! i) = task_text (ts ! i)
                 \<and> task_done (ts1 ! i) =
                     (if task_id (ts ! i) = Some n then \<not> task_done (ts ! i) else task_done (ts ! i)))
            \<and> todays_tasks e2 (query_chat q) w2 = ts
            \<and> users w2 = users w \<and> goals w2 = goals w
            \<and> (distinct (map activity_key (daily_activities w)) \<longrightarrow>
                 daily_activities w2 = daily_activities w)"
proof -
  define ts where "ts = todays_tasks e1 (query_chat q) w"
  define w1 where "w1 = snd (on_callback_query e1 q w)"
  define w2 where "w2 = snd (on_callback_query e2 q w1)"
  define d where "d = CURRENT_DATE e1"
  from todays_tasks_found[OF assms(3)] obtain u us rs
    where u: "select_user (query_chat q) w = u # us"
      and r: "select_tasks (user_id u) d w = Some ts # rs"
    unfolding ts_def d_def by blast
  have found: "taskFound (taskNum_of (query_data q)) ts"
    using assms(2,3) by (simp add: ts_def)
  have first: "users w1 = users w" "goals w1 = goals w"
    "daily_activities w1 = daily_activities (update_tasks (user_id u) d (toggle (Some n) ts) w)"
    using on_check_task_found[OF assms(1) _ _ _ u r[unfolded d_def] found] assms(2,4)
    by (simp_all add: w1_def d_def)
  note after1 = todays_tasks_after[OF u r first(1,3)]
  have ts1: "todays_tasks e1 (query_chat q) w1 = toggle (Some n) ts"
    by (rule after1(3)) (simp add: d_def)
  have u1: "select_user (query_chat q) w1 = u # us"
    by (rule after1(1)) (simp add: d_def)
  have r1: "select_tasks (user_id u) (CURRENT_DATE e2) w1 =
      Some (toggle (Some n) ts) # map (\<lambda>_. Some (toggle (Some n) ts)) rs"
    by (rule after1(2)) (simp add: d_def assms(6))
  have found1: "taskFound (taskNum_of (query_data q)) (toggle (Some n) ts)"
    using found assms(2) by (simp add: taskFound_toggle)
  have second: "users w2 = users w1" "goals w2 = goals w1"
    "daily_activities w2 = daily_activities (update_tasks (user_id u) d ts w1)"
    using on_check_task_found[OF assms(1) _ _ _ u1 r1 found1] assms(2,5,6)
    by (simp_all add: w2_def d_def toggle_toggle)
  have restored: "daily_activities w2 = daily_activities (update_tasks (user_id u) d ts w)"
    using second(3) update_tasks_again[OF first(3)] by simp
  have usr: "users w2 = users w" using first(1) second(1) by simp
  have ts2: "todays_tasks e2 (query_chat q) w2 = ts"
    by (rule todays_tasks_after(3)[OF u r usr restored]) (simp add: d_def assms(6))
  have same: "distinct (map activity_key (daily_activities w)) \<longrightarrow>
      daily_activities w2 = daily_activities w"
    using restored update_tasks_same[OF _ r] by simp
  have flags: "\<forall>i < length ts.
      task_id (toggle (Some n) ts ! i) = task_id (ts ! i)
      \<and> task_text (toggle (Some n) ts ! i) = task_text (ts ! i)
      \<and> task_done (toggle (Some n) ts ! i) =
          (if task_id (ts ! i) = Some n then \<not> task_done (ts ! i) else task_done (ts ! i))"
    using nth_toggle by blast
  show ?thesis
    unfolding Let_def ts_def[symmetric] w1_def[symmetric] w2_def[symmetric] ts1
    using flags ts2 usr first(2) second(2) same by simp
qed


lemmas today_eval = todays_tasks_def select_user_def select_tasks_def activities_of_def
  activity_key_def CURRENT_DATE_def taskNum_of_def third_part_def taskFound_def startsWith_def
  toggle_def update_tasks_def

lemma map_three:
  assumes "length xs = 3"
  shows "map f xs = [f (xs ! 0), f (xs ! 1), f (xs ! 2)]"
proof -
  from assms obtain a b c where "xs = [a, b, c]"
    by (auto simp: numeral_3_eq_3 length_Suc_conv)
  then show ?thesis by simp
qed

theorem toggle_twice_witness:
  "startsWith (query_data click_2) (js ''check_task_'')
   \<and> taskNum_of (query_data click_2) = Some 2
   \<and> taskFound (Some 2) (todays_tasks env_ok (query_chat click_2) world_plan)
   \<and> \<not> fails env_ok Q_user \<and> \<not> fails env_ok Q_today \<and> \<not> fails env_ok Q_update
   \<and> map task_done (todays_tasks env_ok 100 world_plan) = [False, False, False]
   \<and> map task_done (todays_tasks env_ok 100 (snd (on_callback_query env_ok click_2 world_plan))) =
       [False, True, False]
   \<and> todays_tasks env_ok 100
        (snd (on_callback_query env_ok click_2 (snd (on_callback_query env_ok click_2 world_plan)))) =
       report_tasks
   \<and> daily_activities
        (snd (on_callback_query env_ok click_2 (snd (on_callback_query env_ok click_2 world_plan)))) =
       [plan_row]"
proof -
  have h1: "startsWith (query_data click_2) (js ''check_task_'')"
    by (simp add: click_defs today_eval js_def)
  have h2: "taskNum_of (query_data click_2) = Some 2"
    by (simp add: click_defs today_eval js_eval)
  have t0: "todays_tasks env_ok 100 world_plan = report_tasks"
    by (simp add: click_defs today_eval example_defs)
  have c: "query_chat click_2 = 100" by (simp add: click_defs)
  have h3: "taskFound (Some 2) (todays_tasks env_ok (query_chat click_2) world_plan)"
    unfolding c t0 by (simp add: taskFound_def report_tasks_def)
  have h4: "\<not> fails env_ok Q_user \<and> \<not> fails env_ok Q_today \<and> \<not> fails env_ok Q_update"
    by (simp add: example_defs)
  have d: "distinct (map activity_key (daily_activities world_plan))"
    "daily_activities world_plan = [plan_row]"
    by (simp_all add: click_defs example_defs)
  have l: "length report_tasks = 3" by (simp add: report_tasks_def)
  note t = toggle_twice[OF h1 h2 h3 h4 h4 refl, unfolded Let_def c t0 l]
  have f: "map task_done (todays_tasks env_ok 100 (snd (on_callback_query env_ok click_2 world_plan))) =
       [False, True, False]"
  proof -
    from t have n: "length (todays_tasks env_ok 100 (snd (on_callback_query env_ok click_2 world_plan))) = 3"
      by simp
    from t have "\<forall>i<3. task_done (todays_tasks env_ok 100 (snd (on_callback_query env_ok click_2 world_plan)) ! i) =
        (if task_id (report_tasks ! i) = Some 2 then \<not> task_done (report_tasks ! i)
         else task_done (report_tasks ! i))"
      by blast
    then have "task_done (todays_tasks env_ok 100 (snd (on_callback_query env_ok click_2 world_plan)) ! 0) = False"
      "task_done (todays_tasks env_ok 100 (snd (on_callback_query env_ok click_2 world_plan)) ! 1) = True"
      "task_done (todays_tasks env_ok 100 (snd (on_callback_query env_ok click_2 world_plan)) ! 2) = False"
      by (simp_all add: report_tasks_def)
    with map_three[OF n, of task_done] show ?thesis by simp
  qed
  show ?thesis
    using h1 h2 h3 h4 t d f by (simp add: t0 report_tasks_def)
qed

section \<open>A click that matches no task\<close>

lemma stale_when_unknown_or_no_record:
  "select_user c w = [] \<Longrightarrow> \<not> taskFound k (todays_tasks e c w)"
  "select_user c w = u # us \<Longrightarrow> select_tasks (user_id u) (CURRENT_DATE e) w = [] \<Longrightarrow>
     \<not> taskFound k (todays_tasks e c w)"
  by (simp_all add: todays_tasks_def)

text \<open>
  Where the lookup of the user succeeds, a click on a task button whose ordinal is not
  the id of a task of the user's record of today (the user is unknown, or has no record
  today, or the record has no such task) changes no table, rejects nothing and sends
  nothing to the user: at most the click is acknowledged to the transport, whatever
  else fails.
\<close>

lemma stale_toggle_is_silent:
  assumes "startsWith (query_data q) (js ''check_task_'')"
    and "\<not> fails e Q_user"
    and "\<not> taskFound (taskNum_of (query_data q)) (todays_tasks e (query_chat q) w)"
  shows "fst (on_callback_query e q w) = Inr ()
     \<and> users (snd (on_callback_query e q w)) = users w
     \<and> goals (snd (on_callback_query e q w)) = goals w
     \<and> daily_activities (snd (on_callback_query e q w)) = daily_activities w
     \<and> (outbox (snd (on_callback_query e q w)) = outbox w
        \<or> outbox (snd (on_callback_query e q w)) = outbox w @ [AnswerCallback (query_id q)])"
proof (cases "select_user (query_chat q) w")
  case Nil
  with assms(2) show ?thesis by (simp add: on_check_task_unknown)
next
  case (Cons u us)
  from assms(3) Cons show ?thesis
    by (auto simp: on_check_task[OF assms(1,2) Cons] check_task_try_cases Let_def todays_tasks_def
        split: list.splits option.splits)
qed

lemma stale_toggle_is_silent_witness:
  "startsWith (query_data click_9) (js ''check_task_'')
   \<and> \<not> fails env_ok Q_user
   \<and> \<not> taskFound (taskNum_of (query_data click_9)) (todays_tasks env_ok (query_chat click_9) world_plan)
   \<and> fst (on_callback_query env_ok click_9 world_plan) = Inr ()
   \<and> daily_activities (snd (on_callback_query env_ok click_9 world_plan)) = [plan_row]
   \<and> goals (snd (on_callback_query env_ok click_9 world_plan)) = [goal_X, goal_Y, goal_Z]
   \<and> (outbox (snd (on_callback_query env_ok click_9 world_plan)) = []
      \<or> outbox (snd (on_callback_query env_ok click_9 world_plan)) = [AnswerCallback 7])"
proof -
  have h1: "startsWith (query_data click_9) (js ''check_task_'')"
    by (simp add: click_defs today_eval js_def)
  have h2: "\<not> fails env_ok Q_user" by (simp add: example_defs)
  have h3: "\<not> taskFound (taskNum_of (query_data click_9))
      (todays_tasks env_ok (query_chat click_9) world_plan)"
    by (simp add: click_defs today_eval example_defs js_eval)
  have w: "daily_activities world_plan = [plan_row]" "goals world_plan = [goal_X, goal_Y, goal_Z]"
    "outbox world_plan = []" "query_id click_9 = 7"
    by (simp_all add: click_defs example_defs)
  show ?thesis
    using stale_toggle_is_silent[OF h1 h2 h3] h1 h2 h3 by (simp add: w)
qed

text \<open>
  The lookup of the user is the one query of the handler outside a \<open>try\<close> block: when it
  is rejected, the handler rejects, and the click is not acknowledged.
\<close>

lemma user_lookup_rejected:
  "fails e Q_user \<Longrightarrow> on_callback_query e q w = (Inl StoreError, w)"
  by (simp add: on_callback_query_def io_defs)

text \<open>
  Claim C6 fails on the code. The user of chat 100 clicks a button 9 that no task of
  today's list has, while the store is down. The handler changes nothing, but it does
  not end normally: it rejects with the error of the store, which nothing catches.
  With the store up the same click changes nothing and is acknowledged.
\<close>

theorem stale_toggle_rejects:
  "startsWith (query_data click_9) (js ''check_task_'')
   \<and> todays_tasks env_store_down (query_chat click_9) world_plan = report_tasks
   \<and> \<not> taskFound (taskNum_of (query_data click_9)) report_tasks
   \<and> on_callback_query env_store_down click_9 world_plan = (Inl StoreError, world_plan)
   \<and> on_callback_query env_ok click_9 world_plan =
       (Inr (), world_plan\<lparr>outbox := [AnswerCallback 7]\<rparr>)"
  by (simp add: on_callback_query_def check_task_try_def io_defs env_store_down_def click_defs
      today_eval example_defs js_eval)

section \<open>Tasks that share an ordinal\<close>

text \<open>
  Claim C10. A click on the button of ordinal n inverts the completion flag of every
  task of today's list whose id is n, whether or not another task has the same id, and
  the store is left as one \<open>UPDATE\<close> of the whole task list leaves it. The three queries
  of the click are assumed to succeed.
\<close>

theorem toggle_flips_every_match:
  assumes "startsWith (query_data q) (js ''check_task_'')"
    and "taskNum_of (query_data q) = Some n"
    and "taskFound (Some n) (todays_tasks e (query_chat q) w)"
    and "\<not> fails e Q_user \<and> \<not> fails e Q_today \<and> \<not> fails e Q_update"
    and "select_user (query_chat q) w = u # us"
  shows "let ts = todays_tasks e (query_chat q) w;
             ts' = map (\<lambda>t. if task_id t = Some n then t\<lparr>task_done := \<not> task_done t\<rparr> else t) ts;
             w' = snd (on_callback_query e q w)
         in todays_tasks e (query_chat q) w' = ts'
            \<and> daily_activities w' =
                daily_activities (update_tasks (user_id u) (CURRENT_DATE e) ts' w)
            \<and> users w' = users w \<and> goals w' = goals w"
proof -
  define ts where "ts = todays_tasks e (query_chat q) w"
  from todays_tasks_found[OF assms(3)] assms(5) obtain rs
    where r: "select_tasks (user_id u) (CURRENT_DATE e) w = Some ts # rs"
    unfolding ts_def by auto
  have found: "taskFound (taskNum_of (query_data q)) ts"
    using assms(2,3) by (simp add: ts_def)
  have res: "users (snd (on_callback_query e q w)) = users w"
    "goals (snd (on_callback_query e q w)) = goals w"
    "daily_activities (snd (on_callback_query e q w)) =
       daily_activities (update_tasks (user_id u) (CURRENT_DATE e) (toggle (Some n) ts) w)"
    using on_check_task_found[OF assms(1) _ _ _ assms(5) r found] assms(2,4)
    by simp_all
  have "todays_tasks e (query_chat q) (snd (on_callback_query e q w)) = toggle (Some n) ts"
    by (rule todays_tasks_after(3)[OF assms(5) r res(1,3) refl])
  then show ?thesis
    unfolding Let_def ts_def[symmetric] using res by (simp add: toggle_Some)
qed

theorem toggle_flips_every_match_witness:
  "startsWith (query_data click_2) (js ''check_task_'')
   \<and> taskNum_of (query_data click_2) = Some 2
   \<and> taskFound (Some 2) (todays_tasks env_ok (query_chat click_2) world_dup)
   \<and> \<not> fails env_ok Q_user \<and> \<not> fails env_ok Q_today \<and> \<not> fails env_ok Q_update
   \<and> select_user (query_chat click_2) world_dup = [\<lparr>user_id = 1, chat_id = 100\<rparr>]
   \<and> map task_id (todays_tasks env_ok 100 world_dup) = [Some 1, Some 2, Some 2]
   \<and> map task_done (todays_tasks env_ok 100 world_dup) = [False, False, True]
   \<and> map task_done (todays_tasks env_ok 100 (snd (on_callback_query env_ok click_2 world_dup))) =
       [False, True, False]"
proof -
  have h1: "startsWith (query_data click_2) (js ''check_task_'')"
    by (simp add: click_defs today_eval js_def)
  have h2: "taskNum_of (query_data click_2) = Some 2"
    by (simp add: click_defs today_eval js_eval)
  have t0: "todays_tasks env_ok 100 world_dup = dup_tasks"
    by (simp add: world_dup_def today_eval example_defs)
  have c: "query_chat click_2 = 100" by (simp add: click_defs)
  have h3: "taskFound (Some 2) (todays_tasks env_ok (query_chat click_2) world_dup)"
    unfolding c t0 by (simp add: taskFound_def dup_tasks_def)
  have h4: "\<not> fails env_ok Q_user \<and> \<not> fails env_ok Q_today \<and> \<not> fails env_ok Q_update"
    by (simp add: example_defs)
  have h5: "select_user (query_chat click_2) world_dup = [\<lparr>user_id = 1, chat_id = 100\<rparr>]"
    by (simp add: click_defs today_eval example_defs)
  note t = toggle_flips_every_match[OF h1 h2 h3 h4 h5, unfolded Let_def c t0]
  show ?thesis
    using h1 h2 h3 h4 h5 t by (simp add: t0 c dup_tasks_def)
qed

section \<open>One record per user and day\<close>

lemma upsert_activity_frame [simp]:
  "users (upsert_activity u d txt ts w) = users w"
  "goals (upsert_activity u d txt ts w) = goals w"
  "outbox (upsert_activity u d txt ts w) = outbox w"
  "console (upsert_activity u d txt ts w) = console w"
  "gen_calls (upsert_activity u d txt ts w) = gen_calls w"
  by (simp_all add: upsert_activity_def)

lemma upsert_content_frame [simp]:
  "users (upsert_content u d txt w) = users w"
  "goals (upsert_content u d txt w) = goals w"
  "outbox (upsert_content u d txt w) = outbox w"
  "console (upsert_content u d txt w) = console w"
  "gen_calls (upsert_content u d txt w) = gen_calls w"
  by (simp_all add: upsert_content_def)

lemma no_row_no_key:
  "filter (\<lambda>r. activity_key r = k) rows = [] \<Longrightarrow> k \<notin> set (map activity_key rows)"
  by (auto simp: filter_empty_conv)

lemma map_key_same:
  assumes "\<And>r. activity_key (f r) = activity_key r"
  shows "map activity_key (map f rows) = map activity_key rows"
  using assms by (induction rows) simp_all

lemma upsert_activity_keys:
  assumes "distinct (map activity_key (daily_activities w))"
  shows "distinct (map activity_key (daily_activities (upsert_activity u d txt ts w)))"
proof (cases "activities_of u d w = []")
  case True
  then have "(u, d) \<notin> set (map activity_key (daily_activities w))"
    unfolding activities_of_def by (rule no_row_no_key)
  with assms True show ?thesis
    by (simp add: upsert_activity_def activity_key_def)
next
  case False
  have e: "daily_activities (upsert_activity u d txt ts w) =
      map (\<lambda>r. if activity_key r = (u, d) then r\<lparr>content := txt, tasks := Some ts\<rparr> else r) (daily_activities w)"
    using False by (simp add: upsert_activity_def)
  have s: "map activity_key
      (map (\<lambda>r. if activity_key r = (u, d) then r\<lparr>content := txt, tasks := Some ts\<rparr> else r) (daily_activities w)) =
      map activity_key (daily_activities w)"
    by (rule map_key_same) (simp add: activity_key_def)
  show ?thesis unfolding e s by (rule assms)
qed

lemma upsert_content_keys:
  assumes "distinct (map activity_key (daily_activities w))"
  shows "distinct (map activity_key (daily_activities (upsert_content u d txt w)))"
proof (cases "activities_of u d w = []")
  case True
  then have "(u, d) \<notin> set (map activity_key (daily_activities w))"
    unfolding activities_of_def by (rule no_row_no_key)
  with assms True show ?thesis
    by (simp add: upsert_content_def activity_key_def)
next
  case False
  have e: "daily_activities (upsert_content u d txt w) =
      map (\<lambda>r. if activity_key r = (u, d) then r\<lparr>content := txt\<rparr> else r) (daily_activities w)"
    using False by (simp add: upsert_content_def)
  have s: "map activity_key
      (map (\<lambda>r. if activity_key r = (u, d) then r\<lparr>content := txt\<rparr> else r) (daily_activities w)) =
      map activity_key (daily_activities w)"
    by (rule map_key_same) (simp add: activity_key_def)
  show ?thesis unfolding e s by (rule assms)
qed

lemma filter_map_same_key:
  assumes "\<And>r. activity_key (f r) = activity_key r"
  shows "filter (\<lambda>r. activity_key r = k) (map f rows) =
         map f (filter (\<lambda>r. activity_key r = k) rows)"
  using assms by (induction rows) simp_all

text \<open>After the upsert the user has, for that day, the one record just written.\<close>

lemma upsert_activity_row:
  assumes "distinct (map activity_key (daily_activities w))"
  shows "activities_of u d (upsert_activity u d txt ts w) =
         [\<lparr>act_user = u, activity_date = d, content = txt, tasks = Some ts\<rparr>]"
proof (cases "activities_of u d w = []")
  case True
  then show ?thesis
    by (simp add: upsert_activity_def activities_of_def activity_key_def)
next
  case False
  then obtain r rs where f: "filter (\<lambda>r. activity_key r = (u, d)) (daily_activities w) = r # rs"
    by (cases "activities_of u d w") (auto simp: activities_of_def)
  from key_unique[OF assms f] have rs: "rs = []" .
  from f have "r \<in> set (filter (\<lambda>r. activity_key r = (u, d)) (daily_activities w))" by simp
  then have k: "act_user r = u" "activity_date r = d" by (auto simp: activity_key_def)
  have "filter (\<lambda>r. activity_key r = (u, d))
          (map (\<lambda>r. if activity_key r = (u, d) then r\<lparr>content := txt, tasks := Some ts\<rparr> else r)
             (daily_activities w)) =
        map (\<lambda>r. if activity_key r = (u, d) then r\<lparr>content := txt, tasks := Some ts\<rparr> else r)
          (filter (\<lambda>r. activity_key r = (u, d)) (daily_activities w))"
    by (rule filter_map_same_key) (simp add: activity_key_def)
  with f rs k False show ?thesis
    by (cases r) (simp add: upsert_activity_def activities_of_def activity_key_def)
qed

lemma upsert_activity_others:
  "filter (\<lambda>r. activity_key r \<noteq> (u, d)) (daily_activities (upsert_activity u d txt ts w)) =
   filter (\<lambda>r. activity_key r \<noteq> (u, d)) (daily_activities w)"
proof -
  have "filter (\<lambda>r. activity_key r \<noteq> (u, d))
          (map (\<lambda>r. if activity_key r = (u, d) then r\<lparr>content := txt, tasks := Some ts\<rparr> else r) rows) =
        filter (\<lambda>r. activity_key r \<noteq> (u, d)) rows" for rows
    by (induction rows) (simp_all add: activity_key_def)
  then show ?thesis
    by (simp add: upsert_activity_def activity_key_def)
qed

lemma upsert_activity_da_frame [simp]:
  "daily_activities (upsert_activity u d txt ts (w\<lparr>outbox := ob\<rparr>)) =
     daily_activities (upsert_activity u d txt ts w)"
  "daily_activities (upsert_activity u d txt ts (w\<lparr>gen_calls := gc\<rparr>)) =
     daily_activities (upsert_activity u d txt ts w)"
  "daily_activities (upsert_activity u d txt ts (w\<lparr>console := co\<rparr>)) =
     daily_activities (upsert_activity u d txt ts w)"
  by (simp_all add: upsert_activity_def)

lemma upsert_content_da_frame [simp]:
  "daily_activities (upsert_content u d txt (w\<lparr>outbox := ob\<rparr>)) =
     daily_activities (upsert_content u d txt w)"
  "daily_activities (upsert_content u d txt (w\<lparr>gen_calls := gc\<rparr>)) =
     daily_activities (upsert_content u d txt w)"
  "daily_activities (upsert_content u d txt (w\<lparr>console := co\<rparr>)) =
     daily_activities (upsert_content u d txt w)"
  by (simp_all add: upsert_content_def)

text \<open>What an invocation does to the table: nothing, or the one upsert.\<close>

lemma plan_store:
  "users (snd (generateAndSendDailyPlan e c u w)) = users w
   \<and> goals (snd (generateAndSendDailyPlan e c u w)) = goals w
   \<and> (daily_activities (snd (generateAndSendDailyPlan e c u w)) = daily_activities w
      \<or> (\<exists>txt. daily_activities (snd (generateAndSendDailyPlan e c u w)) =
            daily_activities (upsert_activity u (CURRENT_DATE e) txt (stringify (parseTasks txt)) w)))"
  by (auto simp: plan_cases plan_try_cases Let_def split: sum.split)

lemma plan_store_written:
  assumes "plan_generated e u w txt"
  shows "daily_activities (snd (generateAndSendDailyPlan e c u w)) =
           daily_activities (upsert_activity u (CURRENT_DATE e) txt (stringify (parseTasks txt)) w)"
    and "users (snd (generateAndSendDailyPlan e c u w)) = users w"
    and "goals (snd (generateAndSendDailyPlan e c u w)) = goals w"
proof -
  from assms have n: "(select_goals u w = [] \<and> carry_over e u w = []) = False"
    and g: "generate e (plan_prompt e u w) = Inr txt"
    and f: "fails e Q_yesterday = False" "fails e Q_goals = False" "fails e Q_upsert = False"
    by (simp_all add: plan_generated_def)
  show "daily_activities (snd (generateAndSendDailyPlan e c u w)) =
           daily_activities (upsert_activity u (CURRENT_DATE e) txt (stringify (parseTasks txt)) w)"
    by (simp add: plan_cases plan_try_cases Let_def n g f)
  show "users (snd (generateAndSendDailyPlan e c u w)) = users w"
    "goals (snd (generateAndSendDailyPlan e c u w)) = goals w"
    using plan_store[of e c u w] by simp_all
qed

lemma plan_keeps_keys:
  assumes "distinct (map activity_key (daily_activities w))"
  shows "distinct (map activity_key (daily_activities (snd (generateAndSendDailyPlan e c u w))))"
  using plan_store[of e c u w] upsert_activity_keys[OF assms] assms by auto

lemma plan_v1_store:
  "users (snd (generateAndSendDailyPlan_v1 e c u w)) = users w
   \<and> goals (snd (generateAndSendDailyPlan_v1 e c u w)) = goals w
   \<and> (daily_activities (snd (generateAndSendDailyPlan_v1 e c u w)) = daily_activities w
      \<or> (\<exists>txt. daily_activities (snd (generateAndSendDailyPlan_v1 e c u w)) =
            daily_activities (upsert_content u (CURRENT_DATE e) txt w)))"
  by (auto simp: plan_v1_cases plan_v1_try_cases Let_def split: sum.split)

lemma plan_v1_keeps_keys:
  assumes "distinct (map activity_key (daily_activities w))"
  shows "distinct (map activity_key (daily_activities (snd (generateAndSendDailyPlan_v1 e c u w))))"
  using plan_v1_store[of e c u w] upsert_content_keys[OF assms] assms by auto

text \<open>The button handler changes no key: it writes \<open>tasks\<close> only, and deletes goals only.\<close>

lemma check_task_try_keys:
  "map activity_key (daily_activities (snd (check_task_try e q uid w))) =
     map activity_key (daily_activities w)"
  by (simp add: check_task_try_cases Let_def update_tasks_keys split: list.split)

lemma delete_goal_try_activities:
  "daily_activities (snd (delete_goal_try e q w)) = daily_activities w"
  by (simp add: delete_goal_try_def io_defs delete_goal_def split: option.split)

lemma callback_keeps_keys:
  "map activity_key (daily_activities (snd (on_callback_query e q w))) =
     map activity_key (daily_activities w)"
proof (cases "fails e Q_user \<or> select_user (query_chat q) w = []")
  case True
  then show ?thesis by (auto simp: on_callback_query_def io_defs)
next
  case False
  then obtain u us where u: "select_user (query_chat q) w = u # us"
    by (cases "select_user (query_chat q) w") auto
  define a where "a = (if startsWith (query_data q) (js ''check_task_'')
            then tryCatch (check_task_try e q (user_id u)) (\<lambda>err. console_error err)
            else ret ()) w"
  define b where "b = (if startsWith (query_data q) (js ''delete_goal_'')
            then tryCatch (delete_goal_try e q) (\<lambda>err. console_error err)
            else ret ()) (snd a)"
  have fa: "fst a = Inr ()"
    by (simp add: a_def io_defs split: prod.split sum.split)
  have ka: "map activity_key (daily_activities (snd a)) = map activity_key (daily_activities w)"
    using check_task_try_keys[of e q "user_id u" w]
    by (cases "check_task_try e q (user_id u) w") (auto simp: a_def io_defs split: sum.split)
  have fb: "fst b = Inr ()"
    by (simp add: b_def io_defs split: prod.split sum.split)
  have kb: "daily_activities (snd b) = daily_activities (snd a)"
    using delete_goal_try_activities[of e q "snd a"]
    by (cases "delete_goal_try e q (snd a)") (auto simp: b_def io_defs split: sum.split)
  have "on_callback_query e q w =
      (Inr (), (snd b)\<lparr>outbox := outbox (snd b) @ [AnswerCallback (query_id q)]\<rparr>)"
    using False u unfolding a_def b_def
    by (simp add: on_callback_query_def io_defs split: prod.split sum.split)
  then show ?thesis using ka kb by simp
qed


lemma activities_of_cong:
  "daily_activities w' = daily_activities w \<Longrightarrow> activities_of u d w' = activities_of u d w"
  by (simp add: activities_of_def)

lemma upsert_content_row:
  assumes "distinct (map activity_key (daily_activities w))"
  shows "\<exists>r. activities_of u d (upsert_content u d txt w) = [r] \<and> content r = txt"
proof (cases "activities_of u d w = []")
  case True
  then show ?thesis
    by (simp add: upsert_content_def activities_of_def activity_key_def)
next
  case False
  then obtain r rs where f: "filter (\<lambda>r. activity_key r = (u, d)) (daily_activities w) = r # rs"
    by (cases "activities_of u d w") (auto simp: activities_of_def)
  from key_unique[OF assms f] have rs: "rs = []" .
  have "filter (\<lambda>r. activity_key r = (u, d))
          (map (\<lambda>r. if activity_key r = (u, d) then r\<lparr>content := txt\<rparr> else r)
             (daily_activities w)) =
        map (\<lambda>r. if activity_key r = (u, d) then r\<lparr>content := txt\<rparr> else r)
          (filter (\<lambda>r. activity_key r = (u, d)) (daily_activities w))"
    by (rule filter_map_same_key) (simp add: activity_key_def)
  moreover from f have "r \<in> set (filter (\<lambda>r. activity_key r = (u, d)) (daily_activities w))"
    by simp
  then have "activity_key r = (u, d)" by simp
  ultimately show ?thesis
    using f rs False by (simp add: upsert_content_def activities_of_def)
qed

text \<open>
  The table has at most one record per user and date, and every invocation of the
  orchestrator and every button click keeps it so. When the orchestrator gets as far as
  its write twice for the same user on the same date of the store's zone, the user has,
  for that date, exactly one record after the first run, holding the first text and its
  parsed tasks, and exactly one after the second, holding the second text and its parsed
  tasks; the records of other users and dates are those from before.
\<close>

lemma upsert_idempotence:
  assumes "distinct (map activity_key (daily_activities w))"
    and "plan_generated e1 userId w txt1"
    and "plan_generated e2 userId (snd (generateAndSendDailyPlan e1 chatId userId w)) txt2"
    and "CURRENT_DATE e2 = CURRENT_DATE e1"
  shows "let d = CURRENT_DATE e1;
             w1 = snd (generateAndSendDailyPlan e1 chatId userId w);
             w2 = snd (generateAndSendDailyPlan e2 chatId userId w1)
         in activities_of userId d w1 =
              [\<lparr>act_user = userId, activity_date = d, content = txt1, tasks = Some (stringify (parseTasks txt1))\<rparr>]
            \<and> activities_of userId d w2 =
              [\<lparr>act_user = userId, activity_date = d, content = txt2, tasks = Some (stringify (parseTasks txt2))\<rparr>]
            \<and> distinct (map activity_key (daily_activities w2))
            \<and> filter (\<lambda>r. activity_key r \<noteq> (userId, d)) (daily_activities w2) =
                filter (\<lambda>r. activity_key r \<noteq> (userId, d)) (daily_activities w)
            \<and> distinct (map activity_key
                 (daily_activities (snd (generateAndSendDailyPlan e chatId' userId' w))))
            \<and> distinct (map activity_key (daily_activities (snd (on_callback_query e q w))))"
proof -
  define d where "d = CURRENT_DATE e1"
  define w1 where "w1 = snd (generateAndSendDailyPlan e1 chatId userId w)"
  define w2 where "w2 = snd (generateAndSendDailyPlan e2 chatId userId w1)"
  have s1: "daily_activities w1 = daily_activities (upsert_activity userId d txt1 (stringify (parseTasks txt1)) w)"
    unfolding w1_def d_def by (rule plan_store_written(1)[OF assms(2)])
  have i1: "distinct (map activity_key (daily_activities w1))"
    unfolding w1_def by (rule plan_keeps_keys[OF assms(1)])
  have s2: "daily_activities w2 = daily_activities (upsert_activity userId d txt2 (stringify (parseTasks txt2)) w1)"
    unfolding w2_def d_def assms(4)[symmetric]
    by (rule plan_store_written(1)[OF assms(3)[folded w1_def]])
  have i2: "distinct (map activity_key (daily_activities w2))"
    unfolding w2_def by (rule plan_keeps_keys[OF i1])
  have r1: "activities_of userId d w1 =
      [\<lparr>act_user = userId, activity_date = d, content = txt1, tasks = Some (stringify (parseTasks txt1))\<rparr>]"
    unfolding activities_of_cong[OF s1] by (rule upsert_activity_row[OF assms(1)])
  have r2: "activities_of userId d w2 =
      [\<lparr>act_user = userId, activity_date = d, content = txt2, tasks = Some (stringify (parseTasks txt2))\<rparr>]"
    unfolding activities_of_cong[OF s2] by (rule upsert_activity_row[OF i1])
  have o: "filter (\<lambda>r. activity_key r \<noteq> (userId, d)) (daily_activities w2) =
      filter (\<lambda>r. activity_key r \<noteq> (userId, d)) (daily_activities w)"
    unfolding s2 upsert_activity_others s1 ..
  have g: "distinct (map activity_key
      (daily_activities (snd (generateAndSendDailyPlan e chatId' userId' w))))"
    by (rule plan_keeps_keys[OF assms(1)])
  have c: "distinct (map activity_key (daily_activities (snd (on_callback_query e q w))))"
    unfolding callback_keeps_keys by (rule assms(1))
  show ?thesis
    unfolding Let_def d_def[symmetric] w1_def[symmetric] w2_def[symmetric]
    using r1 r2 i2 o g c by simp
qed

lemma first_plan_generated: "plan_generated env_ok 1 world_goals (js ''1. Walk'')"
  by (simp add: plan_generated_def example_defs select_goals_def by_priority_then_id_def)

lemma second_plan_generated:
  "plan_generated env_second 1 (snd (generateAndSendDailyPlan env_ok 100 1 world_goals))
     (js ''1. Swim\<newline>2. Stretch'')"
proof -
  have g: "goals (snd (generateAndSendDailyPlan env_ok 100 1 world_goals)) = goals world_goals"
    by (rule plan_store_written(3)[OF first_plan_generated])
  have s: "select_goals 1 (snd (generateAndSendDailyPlan env_ok 100 1 world_goals)) =
      select_goals 1 world_goals"
    by (simp add: select_goals_def g)
  have n: "select_goals 1 world_goals \<noteq> []"
    by (simp add: example_defs select_goals_def by_priority_then_id_def)
  show ?thesis
    unfolding plan_generated_def s using n by (simp add: env_second_def env_ok_def)
qed

lemma upsert_idempotence_witness:
  "distinct (map activity_key (daily_activities world_goals))
   \<and> plan_generated env_ok 1 world_goals (js ''1. Walk'')
   \<and> plan_generated env_second 1 (snd (generateAndSendDailyPlan env_ok 100 1 world_goals))
        (js ''1. Swim\<newline>2. Stretch'')
   \<and> CURRENT_DATE env_second = CURRENT_DATE env_ok
   \<and> activities_of 1 20760 (snd (generateAndSendDailyPlan env_ok 100 1 world_goals)) =
       [\<lparr>act_user = 1, activity_date = 20760, content = js ''1. Walk'',
         tasks = Some [\<lparr>task_id = Some 1, task_text = js ''Walk'', task_done = False\<rparr>]\<rparr>]
   \<and> activities_of 1 20760
        (snd (generateAndSendDailyPlan env_second 100 1
           (snd (generateAndSendDailyPlan env_ok 100 1 world_goals)))) =
       [\<lparr>act_user = 1, activity_date = 20760, content = js ''1. Swim\<newline>2. Stretch'',
         tasks = Some [\<lparr>task_id = Some 1, task_text = js ''Swim'', task_done = False\<rparr>,
                       \<lparr>task_id = Some 2, task_text = js ''Stretch'', task_done = False\<rparr>]\<rparr>]"
proof -
  have h1: "distinct (map activity_key (daily_activities world_goals))"
    by (simp add: example_defs)
  have h4: "CURRENT_DATE env_second = CURRENT_DATE env_ok"
    by (simp add: env_second_def example_defs CURRENT_DATE_def)
  have d: "CURRENT_DATE env_ok = 20760"
    by (simp add: example_defs CURRENT_DATE_def)
  have p: "stringify (parseTasks (js ''1. Walk'')) =
      [\<lparr>task_id = Some 1, task_text = js ''Walk'', task_done = False\<rparr>]"
    "stringify (parseTasks (js ''1. Swim\<newline>2. Stretch'')) =
       [\<lparr>task_id = Some 1, task_text = js ''Swim'', task_done = False\<rparr>,
        \<lparr>task_id = Some 2, task_text = js ''Stretch'', task_done = False\<rparr>]"
    by (simp_all add: js_eval)
  note t = upsert_idempotence[OF h1 first_plan_generated second_plan_generated h4,
      unfolded Let_def d p]
  show ?thesis
    using h1 first_plan_generated second_plan_generated h4 t by simp
qed

text \<open>
  Claim C1 fails on the code. The user of chat 100 asks for a plan at 00:30 of 2026-11-03
  in Lagos and again at 07:00 of the same day, with the store in UTC. Both runs are on
  the same day, day 20760; the first writes under the store's date 20759 and the second
  under 20760, so the user has two records for the plans of one day, and the first run's
  content is not replaced. Two runs on one date of the store, at 07:00 in Lagos, leave
  one record, with the content of the second.
\<close>

theorem two_records_for_one_day:
  "lagos_date (now env_midnight) = 20760 \<and> lagos_date (now env_second) = 20760
   \<and> CURRENT_DATE env_midnight = 20759 \<and> CURRENT_DATE env_second = 20760
   \<and> daily_activities
       (snd (generateAndSendDailyPlan env_second 100 1
          (snd (generateAndSendDailyPlan env_midnight 100 1 world_goals)))) =
       [\<lparr>act_user = 1, activity_date = 20759, content = js ''1. Walk'',
          tasks = Some [\<lparr>task_id = Some 1, task_text = js ''Walk'', task_done = False\<rparr>]\<rparr>,
        \<lparr>act_user = 1, activity_date = 20760, content = js ''1. Swim\<newline>2. Stretch'',
          tasks = Some [\<lparr>task_id = Some 1, task_text = js ''Swim'', task_done = False\<rparr>,
                        \<lparr>task_id = Some 2, task_text = js ''Stretch'', task_done = False\<rparr>]\<rparr>]
   \<and> daily_activities
       (snd (generateAndSendDailyPlan env_second 100 1
          (snd (generateAndSendDailyPlan env_ok 100 1 world_goals)))) =
       [\<lparr>act_user = 1, activity_date = 20760, content = js ''1. Swim\<newline>2. Stretch'',
          tasks = Some [\<lparr>task_id = Some 1, task_text = js ''Swim'', task_done = False\<rparr>,
                        \<lparr>task_id = Some 2, task_text = js ''Stretch'', task_done = False\<rparr>]\<rparr>]"
  by (simp add: plan_cases plan_try_cases Let_def example_defs carry_over_def select_tasks_def
      activities_of_def activity_key_def unfinished_of_def select_goals_def
      by_priority_then_id_def upsert_activity_def CURRENT_DATE_def lagos_date_def
      yesterdayStr_def yesterdayDate_def todayDate_def lagosTime_def js_eval)

text \<open>
  In \<open>bot.js\<close>, which stores no task list, the second run replaces the content of the
  one record.
\<close>

lemma upsert_idempotence_v1:
  assumes "distinct (map activity_key (daily_activities w))"
    and "plan_generated_v1 e2 userId (snd (generateAndSendDailyPlan_v1 e1 chatId userId w)) txt2"
  shows "\<exists>r. activities_of userId (CURRENT_DATE e2)
               (snd (generateAndSendDailyPlan_v1 e2 chatId userId
                  (snd (generateAndSendDailyPlan_v1 e1 chatId userId w)))) = [r]
             \<and> content r = txt2"
proof -
  define w1 where "w1 = snd (generateAndSendDailyPlan_v1 e1 chatId userId w)"
  have i1: "distinct (map activity_key (daily_activities w1))"
    unfolding w1_def by (rule plan_v1_keeps_keys[OF assms(1)])
  from assms(2) have n: "(select_goals userId w1 = []) = False"
    and g: "generate e2 (buildPrompt_v1 (select_goals userId w1)) = Inr txt2"
    and f: "fails e2 Q_goals = False" "fails e2 Q_upsert = False"
    by (simp_all add: plan_generated_v1_def w1_def)
  have "daily_activities (snd (generateAndSendDailyPlan_v1 e2 chatId userId w1)) =
      daily_activities (upsert_content userId (CURRENT_DATE e2) txt2 w1)"
    by (simp add: plan_v1_cases plan_v1_try_cases Let_def n g f)
  from activities_of_cong[OF this] upsert_content_row[OF i1]
  show ?thesis unfolding w1_def[symmetric] by simp
qed

section \<open>Carry-over\<close>

lemma sublist_inside:
  assumes "sublist x ys"
  shows "sublist x (ps @ ys @ ss)"
proof -
  from assms obtain a b where "ys = a @ x @ b" by (auto simp: sublist_def)
  then have "ps @ ys @ ss = (ps @ a) @ x @ (b @ ss)" by simp
  then show ?thesis unfolding sublist_def by blast
qed

lemma sublist_join: "x \<in> set xs \<Longrightarrow> sublist x (join sep xs)"
proof (induction sep xs rule: join.induct)
  case (1 sep)
  then show ?case by simp
next
  case (2 sep y)
  then show ?case by simp
next
  case (3 sep y z zs)
  show ?case
  proof (cases "x = y")
    case True
    then show ?thesis by simp
  next
    case False
    with 3 have "sublist x (join sep (z # zs))" by simp
    from sublist_inside[OF this, of "y @ sep" "[]"] show ?thesis by simp
  qed
qed

lemma unfinished_in_prompt:
  assumes "x \<in> set unfinishedTasks"
  shows "sublist x (buildPrompt gs unfinishedTasks)"
proof -
  from assms have ne: "unfinishedTasks \<noteq> []" by auto
  from assms have "sublist x (join [10] unfinishedTasks)" by (rule sublist_join)
  from sublist_inside[OF this, of "basePrompt gs @ carry_over_instruction" "[]"] ne
  show ?thesis by (simp add: buildPrompt_def)
qed

lemma carry_over_read:
  "select_tasks u (yesterdayStr e) w = Some ts # rs \<Longrightarrow>
     carry_over e u w = map task_text (filter (\<lambda>t. \<not> task_done t) ts)"
  by (simp add: carry_over_def unfinished_of_def)

lemma carry_over_none:
  "select_tasks u (yesterdayStr e) w = [] \<Longrightarrow> carry_over e u w = []"
  "select_tasks u (yesterdayStr e) w = None # rs \<Longrightarrow> carry_over e u w = []"
  "select_tasks u (yesterdayStr e) w = Some ts # rs \<Longrightarrow> \<forall>t \<in> set ts. task_done t \<Longrightarrow>
     carry_over e u w = []"
  by (simp_all add: carry_over_def unfinished_of_def filter_empty_conv)

text \<open>Dropping the done tasks of yesterday and renumbering the others changes no prompt.\<close>

lemma carry_over_renumbered:
  assumes "select_tasks u (yesterdayStr e) w = Some ts # rs"
  shows "carry_over e u
           (update_tasks u (yesterdayStr e)
              (map (\<lambda>t. t\<lparr>task_id := f t\<rparr>) (filter (\<lambda>t. \<not> task_done t) ts)) w) =
         carry_over e u w"
proof -
  have "filter (\<lambda>t. \<not> task_done t) (map (\<lambda>t. t\<lparr>task_id := f t\<rparr>) xs) =
        map (\<lambda>t. t\<lparr>task_id := f t\<rparr>) (filter (\<lambda>t. \<not> task_done t) xs)" for xs
    by (induction xs) simp_all
  then show ?thesis
    using assms by (simp add: carry_over_def select_tasks_update unfinished_of_def comp_def)
qed

lemma plan_prompt_renumbered:
  assumes "select_tasks u (yesterdayStr e) w = Some ts # rs"
  shows "plan_prompt e u
           (update_tasks u (yesterdayStr e)
              (map (\<lambda>t. t\<lparr>task_id := f t\<rparr>) (filter (\<lambda>t. \<not> task_done t) ts)) w) =
         plan_prompt e u w"
  by (simp add: plan_prompt_def carry_over_renumbered[OF assms] select_goals_def)

lemma plan_calls_provider:
  assumes "\<not> fails e Q_yesterday \<and> \<not> fails e Q_goals"
    and "\<not> (select_goals u w = [] \<and> carry_over e u w = [])"
  shows "gen_calls (snd (generateAndSendDailyPlan e c u w)) = gen_calls w @ [plan_prompt e u w]"
proof -
  from assms have n: "(select_goals u w = [] \<and> carry_over e u w = []) = False"
    and f: "fails e Q_yesterday = False" "fails e Q_goals = False"
    by simp_all
  show ?thesis
    by (simp add: plan_cases plan_try_cases Let_def n f split: sum.split)
qed

text \<open>
  What the record under the key of the carry-over lookup gives the prompt. When the two
  reads succeed and the run is not cut short, the provider is
  called once, with a prompt in which the text of every task of that record that
  is not done occurs as it is stored. The prompt is the same when the done tasks are
  removed from that record and the others are given any other ordinals: only the texts
  of the unfinished tasks enter it. When there is no record for yesterday, or its task
  list is null, or every task in it is done, the prompt is the base prompt, without the
  carry-over instruction; otherwise the instruction and the texts, one per line, are
  appended to the base prompt.
\<close>

lemma carry_over_inclusion:
  assumes "\<not> fails e Q_yesterday \<and> \<not> fails e Q_goals"
    and "\<not> (select_goals userId w = [] \<and> carry_over e userId w = [])"
  shows "let p = plan_prompt e userId w; y = select_tasks userId (yesterdayStr e) w
         in gen_calls (snd (generateAndSendDailyPlan e chatId userId w)) = gen_calls w @ [p]
            \<and> (y = Some ts # rs \<longrightarrow>
                 (\<forall>t \<in> set ts. \<not> task_done t \<longrightarrow> sublist (task_text t) p)
                 \<and> plan_prompt e userId
                     (update_tasks userId (yesterdayStr e)
                        (map (\<lambda>t. t\<lparr>task_id := f t\<rparr>) (filter (\<lambda>t. \<not> task_done t) ts)) w) = p
                 \<and> p = buildPrompt (select_goals userId w)
                         (map task_text (filter (\<lambda>t. \<not> task_done t) ts)))
            \<and> (y = [] \<or> y = None # rs \<or> (y = Some ts # rs \<and> (\<forall>t \<in> set ts. task_done t)) \<longrightarrow>
                 p = basePrompt (select_goals userId w))
            \<and> (carry_over e userId w \<noteq> [] \<longrightarrow>
                 p = basePrompt (select_goals userId w) @ carry_over_instruction
                       @ join [10] (carry_over e userId w))"
proof -
  have a: "gen_calls (snd (generateAndSendDailyPlan e chatId userId w)) =
      gen_calls w @ [plan_prompt e userId w]"
    using assms by (rule plan_calls_provider)
  have b: "sublist (task_text t) (plan_prompt e userId w)"
    if "select_tasks userId (yesterdayStr e) w = Some ts # rs" "t \<in> set ts" "\<not> task_done t" for t
  proof -
    from that have "task_text t \<in> set (carry_over e userId w)"
      by (simp add: carry_over_read)
    then show ?thesis unfolding plan_prompt_def by (rule unfinished_in_prompt)
  qed
  have c: "plan_prompt e userId
             (update_tasks userId (yesterdayStr e)
                (map (\<lambda>t. t\<lparr>task_id := f t\<rparr>) (filter (\<lambda>t. \<not> task_done t) ts)) w) =
           plan_prompt e userId w"
    if "select_tasks userId (yesterdayStr e) w = Some ts # rs"
    using that by (rule plan_prompt_renumbered)
  have d: "plan_prompt e userId w =
      buildPrompt (select_goals userId w) (map task_text (filter (\<lambda>t. \<not> task_done t) ts))"
    if "select_tasks userId (yesterdayStr e) w = Some ts # rs"
    using that by (simp add: plan_prompt_def carry_over_read)
  have n: "plan_prompt e userId w = basePrompt (select_goals userId w)"
    if "carry_over e userId w = []"
    using that by (simp add: plan_prompt_def buildPrompt_def)
  have m: "plan_prompt e userId w = basePrompt (select_goals userId w) @ carry_over_instruction
                       @ join [10] (carry_over e userId w)"
    if "carry_over e userId w \<noteq> []"
    using that by (simp add: plan_prompt_def buildPrompt_def)
  show ?thesis
    unfolding Let_def using a b c d n m carry_over_none by blast
qed


lemma carry_over_inclusion_witness:
  "\<not> fails env_ok Q_yesterday \<and> \<not> fails env_ok Q_goals
   \<and> \<not> (select_goals 1 world_yesterday = [] \<and> carry_over env_ok 1 world_yesterday = [])
   \<and> select_tasks 1 (yesterdayStr env_ok) world_yesterday = [Some yesterday_tasks]
   \<and> map task_done yesterday_tasks = [True, False]
   \<and> carry_over env_ok 1 world_yesterday = [js ''Call client'']
   \<and> sublist (js ''Call client'') (plan_prompt env_ok 1 world_yesterday)
   \<and> gen_calls (snd (generateAndSendDailyPlan env_ok 100 1 world_yesterday)) =
       [plan_prompt env_ok 1 world_yesterday]
   \<and> plan_prompt env_ok 1 world_yesterday =
       basePrompt (select_goals 1 world_yesterday) @ carry_over_instruction @ js ''Call client''"
proof -
  have h1: "\<not> fails env_ok Q_yesterday \<and> \<not> fails env_ok Q_goals"
    by (simp add: example_defs)
  have y: "select_tasks 1 (yesterdayStr env_ok) world_yesterday = Some yesterday_tasks # []"
    by (simp add: world_yesterday_def example_defs select_tasks_def activities_of_def
        activity_key_def yesterdayStr_def yesterdayDate_def todayDate_def lagosTime_def)
  have c: "carry_over env_ok 1 world_yesterday = [js ''Call client'']"
    by (simp add: carry_over_read[OF y] yesterday_tasks_def)
  have h2: "\<not> (select_goals 1 world_yesterday = [] \<and> carry_over env_ok 1 world_yesterday = [])"
    by (simp add: c)
  have g: "gen_calls world_yesterday = []"
    by (simp add: world_yesterday_def example_defs)
  have m: "task_text (yesterday_tasks ! 1) = js ''Call client''" "\<not> task_done (yesterday_tasks ! 1)"
    "yesterday_tasks ! 1 \<in> set yesterday_tasks" "map task_done yesterday_tasks = [True, False]"
    by (simp_all add: yesterday_tasks_def)
  note t = carry_over_inclusion[OF h1 h2, where ts = yesterday_tasks and rs = "[]"
      and f = "\<lambda>t. None" and chatId = 100, unfolded Let_def]
  from t y m have s: "sublist (js ''Call client'') (plan_prompt env_ok 1 world_yesterday)"
    by metis
  from t c have p: "plan_prompt env_ok 1 world_yesterday =
       basePrompt (select_goals 1 world_yesterday) @ carry_over_instruction @ js ''Call client''"
    by simp
  from t g have k: "gen_calls (snd (generateAndSendDailyPlan env_ok 100 1 world_yesterday)) =
       [plan_prompt env_ok 1 world_yesterday]"
    by simp
  show ?thesis
    using h1 h2 y m(4) c s k p by (intro conjI) simp_all
qed

text \<open>
  Claim C4 fails on the code. At 00:30 of 2026-11-03 in Lagos, on a host in the zone of
  Lagos, the record stored for yesterday, 2026-11-02 (day 20759), holds the task "Call
  client", which is not done. The carry-over lookup asks for day 20758, finds nothing,
  and the one prompt sent to the provider is the base prompt, in which the text "Call
  client" does not occur. On a host in UTC, at the same time and with the same store, the
  lookup asks for day 20759 and the text is appended to the prompt.
\<close>

theorem carry_over_missed:
  "lagos_date (now env_lagos) - 1 = 20759
   \<and> daily_activities world_yesterday =
       [\<lparr>act_user = 1, activity_date = 20759,
          content = js ''1. Finish report\<newline>2. Call client'', tasks = Some yesterday_tasks\<rparr>]
   \<and> \<lparr>task_id = Some 2, task_text = js ''Call client'', task_done = False\<rparr> \<in> set yesterday_tasks
   \<and> fst (generateAndSendDailyPlan env_lagos 100 1 world_yesterday) = Inr ()
   \<and> gen_calls (snd (generateAndSendDailyPlan env_lagos 100 1 world_yesterday)) =
       [basePrompt [goal_Y, goal_X, goal_Z]]
   \<and> \<not> sublist (js ''Call client'') (basePrompt [goal_Y, goal_X, goal_Z])
   \<and> gen_calls (snd (generateAndSendDailyPlan env_midnight 100 1 world_yesterday)) =
       [basePrompt [goal_Y, goal_X, goal_Z] @ carry_over_instruction @ js ''Call client'']"
proof -
  have a: "lagos_date (now env_lagos) - 1 = 20759"
    by (simp add: env_lagos_def example_defs lagos_date_def)
  have b: "daily_activities world_yesterday =
       [\<lparr>act_user = 1, activity_date = 20759,
          content = js ''1. Finish report\<newline>2. Call client'', tasks = Some yesterday_tasks\<rparr>]"
    by (simp add: world_yesterday_def example_defs)
  have c: "\<lparr>task_id = Some 2, task_text = js ''Call client'', task_done = False\<rparr> \<in> set yesterday_tasks"
    by (simp add: yesterday_tasks_def)
  have y: "yesterdayStr env_lagos = 20758"
    by (simp add: env_lagos_def example_defs yesterdayStr_def yesterdayDate_def todayDate_def
        lagosTime_def)
  have co: "carry_over env_lagos 1 world_yesterday = []"
    by (simp add: carry_over_def y select_tasks_def activities_of_def activity_key_def b
        unfinished_of_def)
  have g: "select_goals 1 world_yesterday = [goal_Y, goal_X, goal_Z]"
    by (simp add: select_goals_def by_priority_then_id_def world_yesterday_def example_defs)
  have f: "\<not> fails env_lagos Q_yesterday" "\<not> fails env_lagos Q_goals"
    "\<not> fails env_lagos Q_upsert" "\<not> fails env_lagos Send_plan"
    "generate env_lagos = (\<lambda>p. Inr (js ''1. Walk''))"
    by (simp_all add: env_lagos_def example_defs)
  have e: "gen_calls world_yesterday = []" by (simp add: world_yesterday_def example_defs)
  have d: "fst (generateAndSendDailyPlan env_lagos 100 1 world_yesterday) = Inr ()"
    by (rule plan_returns)
  have p: "gen_calls (snd (generateAndSendDailyPlan env_lagos 100 1 world_yesterday)) =
       [basePrompt [goal_Y, goal_X, goal_Z]]"
    by (simp add: plan_cases plan_try_cases Let_def co g f e plan_prompt_def buildPrompt_def
        upsert_activity_def)
  have s: "\<not> sublist (js ''Call client'') (basePrompt [goal_Y, goal_X, goal_Z])"
    by (simp add: basePrompt_def prompt_head_def prompt_tail_def goalsText_def goalLine_def
        example_defs js_eval sublist_code prefix_code)
  have y': "yesterdayStr env_midnight = 20759"
    by (simp add: example_defs yesterdayStr_def yesterdayDate_def todayDate_def lagosTime_def)
  have co': "carry_over env_midnight 1 world_yesterday = [js ''Call client'']"
    by (simp add: carry_over_def y' select_tasks_def activities_of_def activity_key_def b
        unfinished_of_def yesterday_tasks_def)
  have f': "\<not> fails env_midnight Q_yesterday" "\<not> fails env_midnight Q_goals"
    "\<not> fails env_midnight Q_upsert" "\<not> fails env_midnight Send_plan"
    "generate env_midnight = (\<lambda>p. Inr (js ''1. Walk''))"
    by (simp_all add: example_defs)
  have p': "gen_calls (snd (generateAndSendDailyPlan env_midnight 100 1 world_yesterday)) =
       [basePrompt [goal_Y, goal_X, goal_Z] @ carry_over_instruction @ js ''Call client'']"
    by (simp add: plan_cases plan_try_cases Let_def co' g f' e plan_prompt_def buildPrompt_def
        upsert_activity_def)
  show ?thesis using a b c d p s p' by simp
qed

section \<open>Where the number of a goal is its number in the listing\<close>

lemma same_priority_order:
  assumes "\<And>g. g \<in> set gs \<Longrightarrow> priority g = p"
  shows "by_priority_then_id gs = sort_key goal_id gs"
proof -
  have ins: "insort_key (\<lambda>g. (- priority g, goal_id g)) x ys = insort_key goal_id x ys"
    if "priority x = p" "\<And>g. g \<in> set ys \<Longrightarrow> priority g = p"
    for x :: goal_row and ys :: "goal_row list"
    using that by (induction ys) auto
  have srt: "sort_key (\<lambda>g. (- priority g, goal_id g)) xs = sort_key goal_id xs"
    if "\<And>g. g \<in> set xs \<Longrightarrow> priority g = p" for xs :: "goal_row list"
    using that
  proof (induction xs)
    case Nil
    show ?case by simp
  next
    case (Cons x xs)
    then have "sort_key (\<lambda>g. (- priority g, goal_id g)) xs = sort_key goal_id xs" by simp
    moreover have "insort_key (\<lambda>g. (- priority g, goal_id g)) x (sort_key goal_id xs) =
        insort_key goal_id x (sort_key goal_id xs)"
      using Cons.prems by (intro ins) auto
    ultimately show ?case by simp
  qed
  show ?thesis unfolding by_priority_then_id_def by (rule srt) (rule assms)
qed

lemma mygoals_of_user:
  assumes "select_user chatId w = [u]"
    and "distinct (map user_id (users w))"
  shows "select_mygoals chatId w = select_goals (user_id u) w"
proof -
  have one: "filter (\<lambda>u'. goal_user g = user_id u' \<and> chat_id u' = chatId) (users w) =
      (if goal_user g = user_id u then [u] else [])" for g :: goal_row
  proof -
    have "filter (\<lambda>u'. goal_user g = user_id u' \<and> chat_id u' = chatId) (users w) =
        filter (\<lambda>u'. goal_user g = user_id u') (filter (\<lambda>u'. chat_id u' = chatId) (users w))"
      by (simp add: conj_commute)
    also have "\<dots> = filter (\<lambda>u'. goal_user g = user_id u') [u]"
      using assms(1) by (simp add: select_user_def)
    finally show ?thesis by simp
  qed
  have "concat (map (\<lambda>g. map (\<lambda>u. g)
          (filter (\<lambda>u'. goal_user g = user_id u' \<and> chat_id u' = chatId) (users w))) gs) =
        filter (\<lambda>g. goal_user g = user_id u) gs" for gs :: "goal_row list"
    by (induction gs) (simp_all add: one)
  then show ?thesis by (simp add: select_mygoals_def select_goals_def)
qed

text \<open>
  Where all the goals of the user have the same priority the two orders are the same,
  and \<open>/delete 2\<close> removes the second goal of the listing and keeps the others in order.
\<close>

lemma delete_by_number_same_priority:
  assumes "\<not> fails e Q_user" and "\<not> fails e Q_goals_by_id" and "\<not> fails e Q_delete_by_id"
    and "select_user chatId w = [u]" and "distinct (map user_id (users w))"
    and "distinct (map goal_id (goals w))"
    and "\<And>g. g \<in> set (goals w) \<Longrightarrow> goal_user g = user_id u \<Longrightarrow> priority g = p"
    and "select_mygoals chatId w = [A, B, C]"
  shows "select_mygoals chatId (snd (delete_by_number e chatId (js ''2'') w)) = [A, C]"
proof -
  define mine where "mine = filter (\<lambda>g. goal_user g = user_id u) (goals w)"
  have l: "select_goals (user_id u) w = [A, B, C]"
    using assms(8) mygoals_of_user[OF assms(4,5)] by simp
  have "by_priority_then_id mine = sort_key goal_id mine"
    by (rule same_priority_order[of mine p]) (simp add: mine_def assms(7))
  then have s: "select_goals_by_id (user_id u) w = [A, B, C]"
    using l by (simp add: select_goals_def select_goals_by_id_def mine_def)
  have two: "parseInt (js ''2'') = Finite 2" by (simp add: js_eval)
  define w' where "w' = snd (delete_by_number e chatId (js ''2'') w)"
  have g': "goals w' = filter (\<lambda>g. goal_id g \<noteq> goal_id B) (goals w)" and u': "users w' = users w"
    using assms(1-4) s
    by (simp_all add: w'_def delete_by_number_def two io_defs delete_goal_def)
  have su: "select_user chatId w' = [u]"
    using assms(4) u' by (simp add: select_user_def)
  have "select_mygoals chatId w' = select_goals (user_id u) w'"
    by (rule mygoals_of_user[OF su]) (simp add: u' assms(5))
  also have "\<dots> = by_priority_then_id (filter (\<lambda>g. goal_id g \<noteq> goal_id B) mine)"
    by (simp add: select_goals_def g' mine_def conj_commute)
  also have "\<dots> = filter (\<lambda>g. goal_id g \<noteq> goal_id B) (by_priority_then_id mine)"
    by (simp add: by_priority_then_id_def filter_sort)
  also have "\<dots> = filter (\<lambda>g. goal_id g \<noteq> goal_id B) [A, B, C]"
    using l by (simp add: select_goals_def mine_def)
  finally have r: "select_mygoals chatId w' = filter (\<lambda>g. goal_id g \<noteq> goal_id B) [A, B, C]" .
  have "set [A, B, C] \<subseteq> set (goals w)"
    using l by (auto simp: select_goals_def by_priority_then_id_def dest!: arg_cong[where f = set])
  moreover have "distinct [A, B, C]"
  proof -
    have "distinct mine" using assms(6) by (simp add: mine_def distinct_map_filter distinct_map[THEN iffD1, THEN conjunct1])
    then have "distinct (by_priority_then_id mine)" by (simp add: by_priority_then_id_def)
    with l show ?thesis by (simp add: select_goals_def mine_def)
  qed
  ultimately have "goal_id A \<noteq> goal_id B" "goal_id C \<noteq> goal_id B"
    using assms(6) by (auto simp: distinct_map inj_on_def)
  with r show ?thesis by (simp add: w'_def)
qed

lemma delete_by_number_goals:
  "set (goals (snd (delete_by_number e chatId n w))) \<subseteq> set (goals w)"
  by (auto simp: delete_by_number_def io_defs delete_goal_def Let_def
      split: list.split number.split)

lemma delete_by_number_rejected:
  assumes "fails e Q_user \<or> fails e Q_goals_by_id \<or> fails e Q_delete_by_id"
    and "select_user chatId w = [u]" and "select_goals_by_id (user_id u) w = [A, B, C]"
  shows "delete_by_number e chatId (js ''2'') w =
     (Inr (), w\<lparr>console := console w @ [StoreError],
                 outbox := outbox w @ [Notice chatId ErrorDeleting]\<rparr>)"
proof -
  have two: "parseInt (js ''2'') = Finite 2" by (simp add: js_eval)
  show ?thesis
    using assms by (auto simp: delete_by_number_def two io_defs)
qed

lemma by_id_when_default:
  assumes "default_priorities p w"
  shows "select_goals_by_id userId w = select_goals userId w"
proof -
  have "by_priority_then_id (filter (\<lambda>g. goal_user g = userId) (goals w)) =
      sort_key goal_id (filter (\<lambda>g. goal_user g = userId) (goals w))"
    using assms by (intro same_priority_order[where p = p]) (simp add: default_priorities_def)
  then show ?thesis by (simp add: select_goals_def select_goals_by_id_def)
qed

text \<open>
  Claim C8. Every goal that the bot stores has the default priority: the empty table
  has no other, and neither a new goal nor \<open>/delete\<close> brings one in. Then, for the one
  registered user of a chat whose listing (by priority, then id) is A, B, C, the ids
  of the table being distinct, \<open>/delete 2\<close> deletes exactly the rows with the id of B,
  tells the user that the goal with B's description is deleted, and the listing is then
  A, C; when one of the three queries is rejected, nothing is deleted and the user is
  told of an error.
\<close>

theorem delete_by_number_consistent:
  "default_priorities p (w\<lparr>goals := []\<rparr>)
   \<and> (default_priorities p w \<longrightarrow> default_priorities p (insert_goal p newId userId descr dl w))
   \<and> (default_priorities p w \<longrightarrow> default_priorities p (snd (delete_by_number e chatId n w)))
   \<and> (default_priorities p w \<and> select_user chatId w = [u]
        \<and> distinct (map user_id (users w)) \<and> distinct (map goal_id (goals w))
        \<and> select_mygoals chatId w = [A, B, C] \<longrightarrow>
        (if fails e Q_user \<or> fails e Q_goals_by_id \<or> fails e Q_delete_by_id
         then delete_by_number e chatId (js ''2'') w =
                (Inr (), w\<lparr>console := console w @ [StoreError],
                            outbox := outbox w @ [Notice chatId ErrorDeleting]\<rparr>)
         else delete_by_number e chatId (js ''2'') w =
                (Inr (), w\<lparr>goals := filter (\<lambda>g. goal_id g \<noteq> goal_id B) (goals w),
                            outbox := outbox w @ [Notice chatId (DeletedGoal (description B))]\<rparr>)
              \<and> select_mygoals chatId (snd (delete_by_number e chatId (js ''2'') w)) = [A, C]))"
proof (intro conjI impI)
  show "default_priorities p (w\<lparr>goals := []\<rparr>)" by (simp add: default_priorities_def)
next
  assume "default_priorities p w"
  then show "default_priorities p (insert_goal p newId userId descr dl w)"
    by (simp add: default_priorities_def insert_goal_def)
next
  assume "default_priorities p w"
  then show "default_priorities p (snd (delete_by_number e chatId n w))"
    using delete_by_number_goals[of e chatId n w] by (auto simp: default_priorities_def)
next
  assume h: "default_priorities p w \<and> select_user chatId w = [u]
        \<and> distinct (map user_id (users w)) \<and> distinct (map goal_id (goals w))
        \<and> select_mygoals chatId w = [A, B, C]"
  then have l: "select_goals (user_id u) w = [A, B, C]"
    using mygoals_of_user[of chatId w u] by simp
  have s: "select_goals_by_id (user_id u) w = [A, B, C]"
    using by_id_when_default[of p w "user_id u"] h l by simp
  have two: "parseInt (js ''2'') = Finite 2" by (simp add: js_eval)
  show "if fails e Q_user \<or> fails e Q_goals_by_id \<or> fails e Q_delete_by_id
         then delete_by_number e chatId (js ''2'') w =
                (Inr (), w\<lparr>console := console w @ [StoreError],
                            outbox := outbox w @ [Notice chatId ErrorDeleting]\<rparr>)
         else delete_by_number e chatId (js ''2'') w =
                (Inr (), w\<lparr>goals := filter (\<lambda>g. goal_id g \<noteq> goal_id B) (goals w),
                            outbox := outbox w @ [Notice chatId (DeletedGoal (description B))]\<rparr>)
              \<and> select_mygoals chatId (snd (delete_by_number e chatId (js ''2'') w)) = [A, C]"
  proof (cases "fails e Q_user \<or> fails e Q_goals_by_id \<or> fails e Q_delete_by_id")
    case True
    then show ?thesis
      using delete_by_number_rejected[OF True _ s] h by simp
  next
    case False
    then have f: "\<not> fails e Q_user" "\<not> fails e Q_goals_by_id" "\<not> fails e Q_delete_by_id"
      by simp_all
    have d: "delete_by_number e chatId (js ''2'') w =
        (Inr (), w\<lparr>goals := filter (\<lambda>g. goal_id g \<noteq> goal_id B) (goals w),
                    outbox := outbox w @ [Notice chatId (DeletedGoal (description B))]\<rparr>)"
      using f h s by (simp add: delete_by_number_def two io_defs delete_goal_def)
    have m: "select_mygoals chatId (snd (delete_by_number e chatId (js ''2'') w)) = [A, C]"
    proof (rule delete_by_number_same_priority[OF f, where u = u and p = p])
      show "select_user chatId w = [u]" using h by simp
      show "distinct (map user_id (users w))" using h by simp
      show "distinct (map goal_id (goals w))" using h by simp
      show "select_mygoals chatId w = [A, B, C]" using h by simp
      show "\<And>g. g \<in> set (goals w) \<Longrightarrow> goal_user g = user_id u \<Longrightarrow> priority g = p"
        using h by (simp add: default_priorities_def)
    qed
    from False d m show ?thesis by simp
  qed
qed

theorem delete_by_number_consistent_witness:
  "default_priorities 0 world_inserted
   \<and> select_user 100 world_inserted = [\<lparr>user_id = 1, chat_id = 100\<rparr>]
   \<and> distinct (map user_id (users world_inserted))
   \<and> distinct (map goal_id (goals world_inserted))
   \<and> select_mygoals 100 world_inserted =
       [goal_X, \<lparr>goal_id = 2, goal_user = 1, description = js ''Read'', deadline = None, priority = 0\<rparr>,
        goal_Z]
   \<and> \<not> (fails env_ok Q_user \<or> fails env_ok Q_goals_by_id \<or> fails env_ok Q_delete_by_id)
   \<and> goals (snd (delete_by_number env_ok 100 (js ''2'') world_inserted)) = [goal_X, goal_Z]
   \<and> outbox (snd (delete_by_number env_ok 100 (js ''2'') world_inserted)) =
       [Notice 100 (DeletedGoal (js ''Read''))]
   \<and> select_mygoals 100 (snd (delete_by_number env_ok 100 (js ''2'') world_inserted)) =
       [goal_X, goal_Z]"
proof -
  have g: "goals world_inserted =
      [goal_X, \<lparr>goal_id = 2, goal_user = 1, description = js ''Read'', deadline = None, priority = 0\<rparr>,
       goal_Z]"
    and u: "users world_inserted = [\<lparr>user_id = 1, chat_id = 100\<rparr>]"
    and o: "outbox world_inserted = []"
    by (simp_all add: world_inserted_def insert_goal_def example_defs)
  have m: "select_mygoals 100 world_inserted =
       [goal_X, \<lparr>goal_id = 2, goal_user = 1, description = js ''Read'', deadline = None, priority = 0\<rparr>,
        goal_Z]"
    by (simp add: select_mygoals_def by_priority_then_id_def g u example_defs)
  have h: "default_priorities 0 world_inserted
     \<and> select_user 100 world_inserted = [\<lparr>user_id = 1, chat_id = 100\<rparr>]
     \<and> distinct (map user_id (users world_inserted))
     \<and> distinct (map goal_id (goals world_inserted))
     \<and> select_mygoals 100 world_inserted =
       [goal_X, \<lparr>goal_id = 2, goal_user = 1, description = js ''Read'', deadline = None, priority = 0\<rparr>,
        goal_Z]"
    unfolding m by (simp add: default_priorities_def select_user_def g u example_defs)
  have f: "\<not> (fails env_ok Q_user \<or> fails env_ok Q_goals_by_id \<or> fails env_ok Q_delete_by_id)"
    by (simp add: example_defs)
  note t = delete_by_number_consistent[where p = 0 and w = world_inserted and chatId = 100
      and e = env_ok and u = "\<lparr>user_id = 1, chat_id = 100\<rparr>" and A = goal_X and C = goal_Z
      and B = "\<lparr>goal_id = 2, goal_user = 1, description = js ''Read'', deadline = None, priority = 0\<rparr>"]
  note r = t[THEN conjunct2, THEN conjunct2, THEN conjunct2, THEN mp, OF h]
  note rr = r[unfolded if_not_P[OF f]]
  from rr[THEN conjunct1] have d: "delete_by_number env_ok 100 (js ''2'') world_inserted =
      (Inr (), world_inserted\<lparr>goals := filter (\<lambda>g. goal_id g \<noteq> 2) (goals world_inserted),
         outbox := outbox world_inserted @ [Notice 100 (DeletedGoal (js ''Read''))]\<rparr>)"
    by simp
  note k = rr[THEN conjunct2]
  have gg: "goals (snd (delete_by_number env_ok 100 (js ''2'') world_inserted)) = [goal_X, goal_Z]"
    unfolding d by (simp add: g example_defs)
  have oo: "outbox (snd (delete_by_number env_ok 100 (js ''2'') world_inserted)) =
       [Notice 100 (DeletedGoal (js ''Read''))]"
    unfolding d by (simp add: o)
  show ?thesis using h f gg oo k by simp
qed

lemma delete_tip_deletes_nothing:
  "delete_tip chatId w = (Inr (), w\<lparr>outbox := outbox w @ [Notice chatId DeleteTip]\<rparr>)"
  by (simp add: delete_tip_def send_def)

section \<open>A plan without task lines\<close>

text \<open>A text with no task line is stored like any other: an empty task list, an empty keyboard.\<close>

lemma zero_tasks_is_no_error:
  assumes "plan_generated e u w txt" and "parseTasks txt = []" and "\<not> fails e Send_plan"
  shows "generateAndSendDailyPlan e c u w =
     (Inr (),
      (upsert_activity u (CURRENT_DATE e) txt [] w)
        \<lparr>outbox := outbox w @ [Notice c Checking, Plan c (carry_over e u w \<noteq> []) txt []],
          gen_calls := gen_calls w @ [plan_prompt e u w]\<rparr>)"
proof -
  from assms have n: "(select_goals u w = [] \<and> carry_over e u w = []) = False"
    and g: "generate e (plan_prompt e u w) = Inr txt"
    and f: "fails e Q_yesterday = False" "fails e Q_goals = False" "fails e Q_upsert = False"
      "fails e Send_plan = False"
    by (simp_all add: plan_generated_def)
  show ?thesis
    by (simp add: plan_cases plan_try_cases Let_def n g f assms(2) plan_buttons_def
        upsert_activity_def stringify_def)
qed

end
